theory Spec2Isabelle
  imports Complex_Main "HOL-Library.AList"
begin

section \<open>JavaScript values that the client handles\<close>

text \<open>
  A JavaScript number is an IEEE double. The code only compares numbers and formats them,
  so a finite double is represented by its exact mathematical value; the two infinities
  and NaN are separate values. Negative zero is identified with zero (the code never
  distinguishes them: \<^verbatim>\<open>-0 < 0\<close> is false and \<^verbatim>\<open>(-0).toFixed(1)\<close> is \<^verbatim>\<open>0.0\<close>).
\<close>

datatype jsnum = Fin real | PosInf | NegInf | NaN

text \<open>
  A value produced by \<^verbatim>\<open>JSON.parse\<close>. An object is the list of its own properties in
  insertion order. \<^verbatim>\<open>undefined\<close> is not a JSON value: a property read returns an
  option, and \<open>None\<close> is \<^verbatim>\<open>undefined\<close>.
\<close>

datatype json =
    JNull
  | JBool bool
  | JNum jsnum
  | JStr string
  | JArr "json list"
  | JObj "(string \<times> json) list"

text \<open>A thrown value: an \<^verbatim>\<open>Error\<close> instance with its message, or anything else.\<close>

datatype thrown = ErrorObj string | NonError

text \<open>
  The built-in functions of the runtime that the code calls and that are not part of the
  repository. \<open>None\<close> is a throw.
\<close>

record js_runtime =
  atob :: "string \<Rightarrow> string option"
  JSON_parse :: "string \<Rightarrow> json option"
  StringToNumber :: "string \<Rightarrow> jsnum"
  NumberToString :: "jsnum \<Rightarrow> string"
  notAFunctionMessage :: string
  Date_parse :: "string \<Rightarrow> int option"
  localeCompare :: "string \<Rightarrow> string \<Rightarrow> int"
  JSON_stringify :: "json \<Rightarrow> string"
  createObjectURL :: "string \<Rightarrow> string"

subsection \<open>Strings\<close>

fun is_prefix :: "string \<Rightarrow> string \<Rightarrow> bool" where
  "is_prefix [] s = True"
| "is_prefix (c # cs) [] = False"
| "is_prefix (c # cs) (d # ds) = (c = d \<and> is_prefix cs ds)"

text \<open>\<^verbatim>\<open>s.includes(sub)\<close>\<close>

fun str_includes :: "string \<Rightarrow> string \<Rightarrow> bool" where
  "str_includes [] sub = (sub = [])"
| "str_includes (c # cs) sub = (is_prefix sub (c # cs) \<or> str_includes cs sub)"

text \<open>\<^verbatim>\<open>s.split(sep)\<close> for a one-character separator: the accumulator is the current segment.\<close>

fun split_acc :: "char \<Rightarrow> string \<Rightarrow> string \<Rightarrow> string list" where
  "split_acc sep acc [] = [rev acc]"
| "split_acc sep acc (c # cs) =
     (if c = sep then rev acc # split_acc sep [] cs else split_acc sep (c # acc) cs)"

definition split :: "string \<Rightarrow> char \<Rightarrow> string list" where
  "split s sep = split_acc sep [] s"

text \<open>\<^verbatim>\<open>s.replace(/a/g, b)\<close> for single characters.\<close>

definition replace_all :: "char \<Rightarrow> char \<Rightarrow> string \<Rightarrow> string" where
  "replace_all a b s = map (\<lambda>c. if c = a then b else c) s"

definition digit_char :: "nat \<Rightarrow> char" where
  "digit_char d = ''0123456789'' ! d"

text \<open>The decimal digits of a non-negative integer, as template literals print it.\<close>

function show_nat :: "nat \<Rightarrow> string" where
  "show_nat n = (if n < 10 then [digit_char n] else show_nat (n div 10) @ [digit_char (n mod 10)])"
  by pat_completeness auto
termination
  by (relation "measure id") auto

declare show_nat.simps [simp del]

fun join_with :: "string \<Rightarrow> string list \<Rightarrow> string" where
  "join_with sep [] = []"
| "join_with sep [s] = s"
| "join_with sep (s # t # ss) = s @ sep @ join_with sep (t # ss)"

subsection \<open>Conversions\<close>

text \<open>Truthiness of a value that may be \<^verbatim>\<open>undefined\<close>.\<close>

fun truthy :: "json \<Rightarrow> bool" where
  "truthy JNull = False"
| "truthy (JBool b) = b"
| "truthy (JNum (Fin r)) = (r \<noteq> 0)"
| "truthy (JNum NaN) = False"
| "truthy (JNum PosInf) = True"
| "truthy (JNum NegInf) = True"
| "truthy (JStr s) = (s \<noteq> [])"
| "truthy (JArr xs) = True"
| "truthy (JObj kvs) = True"

definition truthy_opt :: "json option \<Rightarrow> bool" where
  "truthy_opt v = (case v of None \<Rightarrow> False | Some j \<Rightarrow> truthy j)"

text \<open>
  \<^verbatim>\<open>v[key]\<close> for a property name that no prototype defines (\<^verbatim>\<open>exp\<close>, \<^verbatim>\<open>error\<close>,
  \<^verbatim>\<open>data\<close>, \<^verbatim>\<open>success\<close>, \<^verbatim>\<open>driver_id\<close>, ...), on a value that is not \<^verbatim>\<open>null\<close>:
  only an object has such a property.
\<close>

fun get_prop :: "json \<Rightarrow> string \<Rightarrow> json option" where
  "get_prop (JObj kvs) k = map_of kvs k"
| "get_prop v k = None"

text \<open>\<^verbatim>\<open>String(v)\<close>: an array joins its elements with commas, null elements being empty.\<close>

fun to_string :: "js_runtime \<Rightarrow> json \<Rightarrow> string" where
  "to_string rt JNull = ''null''"
| "to_string rt (JBool b) = (if b then ''true'' else ''false'')"
| "to_string rt (JNum n) = NumberToString rt n"
| "to_string rt (JStr s) = s"
| "to_string rt (JArr xs) =
     join_with '','' (map (\<lambda>x. if x = JNull then [] else to_string rt x) xs)"
| "to_string rt (JObj kvs) = ''[object Object]''"

text \<open>\<^verbatim>\<open>Number(v)\<close>: arrays and objects go through their string.\<close>

fun to_number :: "js_runtime \<Rightarrow> json \<Rightarrow> jsnum" where
  "to_number rt JNull = Fin 0"
| "to_number rt (JBool b) = (if b then Fin 1 else Fin 0)"
| "to_number rt (JNum n) = n"
| "to_number rt (JStr s) = StringToNumber rt s"
| "to_number rt (JArr xs) = StringToNumber rt (to_string rt (JArr xs))"
| "to_number rt (JObj kvs) = StringToNumber rt (to_string rt (JObj kvs))"

definition to_number_opt :: "js_runtime \<Rightarrow> json option \<Rightarrow> jsnum" where
  "to_number_opt rt v = (case v of None \<Rightarrow> NaN | Some j \<Rightarrow> to_number rt j)"

text \<open>\<^verbatim>\<open>a < b\<close> and \<^verbatim>\<open>a > b\<close> on numbers: every comparison with NaN is false.\<close>

fun num_less :: "jsnum \<Rightarrow> jsnum \<Rightarrow> bool" where
  "num_less NaN b = False"
| "num_less a NaN = False"
| "num_less (Fin a) (Fin b) = (a < b)"
| "num_less (Fin a) PosInf = True"
| "num_less (Fin a) NegInf = False"
| "num_less PosInf b = False"
| "num_less NegInf NegInf = False"
| "num_less NegInf b = True"

definition num_greater :: "jsnum \<Rightarrow> jsnum \<Rightarrow> bool" where
  "num_greater a b = num_less b a"

text \<open>\<^verbatim>\<open>Number.isFinite\<close>\<close>

fun isFinite :: "jsnum \<Rightarrow> bool" where
  "isFinite (Fin r) = True"
| "isFinite n = False"

section \<open>Token store: \<^verbatim>\<open>src/services/api.ts\<close>\<close>

text \<open>\<^verbatim>\<open>localStorage\<close>: \<open>getItem\<close> is the map itself, \<open>None\<close> is \<^verbatim>\<open>null\<close>.\<close>

type_synonym storage = "string \<rightharpoonup> string"

definition removeItem :: "storage \<Rightarrow> string \<Rightarrow> storage" where
  "removeItem st k = st(k := None)"

text \<open>\<^verbatim>\<open>!token\<close> holds for \<^verbatim>\<open>null\<close> and for the empty string.\<close>

definition falsy_str :: "string option \<Rightarrow> bool" where
  "falsy_str t = (case t of None \<Rightarrow> True | Some s \<Rightarrow> s = [])"

text \<open>
  The first four lines of \<^verbatim>\<open>isTokenValid\<close> and of \<^verbatim>\<open>getAuthHeader\<close>: the final token,
  or the temporary one when the final one is falsy.
\<close>

definition activeToken :: "storage \<Rightarrow> string option" where
  "activeToken st =
     (let token = st ''id_transporte_token''
      in if falsy_str token then st ''temp_token'' else token)"

text \<open>\<^verbatim>\<open>payload.exp > currentTime\<close>; reading \<^verbatim>\<open>exp\<close> of \<^verbatim>\<open>null\<close> throws.\<close>

definition exp_after :: "js_runtime \<Rightarrow> json \<Rightarrow> int \<Rightarrow> bool option" where
  "exp_after rt payload currentTime =
     (if payload = JNull then None
      else Some (num_greater (to_number_opt rt (get_prop payload ''exp'')) (Fin (of_int currentTime))))"

text \<open>The body of the \<^verbatim>\<open>try\<close> in \<^verbatim>\<open>isTokenValid\<close>; \<open>None\<close> is a throw.\<close>

definition isTokenValid_try :: "js_runtime \<Rightarrow> int \<Rightarrow> string \<Rightarrow> bool option" where
  "isTokenValid_try rt now token =
     (let parts = split token (CHR ''.'')
      in if length parts \<noteq> 3 then Some False
         else
           let base64 = replace_all (CHR ''_'') (CHR ''/'') (replace_all (CHR ''-'') (CHR ''+'') (parts ! 1))
           in case atob rt base64 of
                None \<Rightarrow> None
              | Some decoded \<Rightarrow>
                  (case JSON_parse rt decoded of
                     None \<Rightarrow> None
                   | Some payload \<Rightarrow> exp_after rt payload (now div 1000)))"

text \<open>\<^verbatim>\<open>isTokenValid\<close>: \<open>now\<close> is \<^verbatim>\<open>Date.now()\<close>, in milliseconds.\<close>

definition isTokenValid :: "js_runtime \<Rightarrow> int \<Rightarrow> storage \<Rightarrow> bool" where
  "isTokenValid rt now st =
     (let token = activeToken st
      in if falsy_str token then False
         else case isTokenValid_try rt now (the token) of
                None \<Rightarrow> False
              | Some b \<Rightarrow> b)"

type_synonym headers = "(string \<times> string) list"

definition clearSession :: "storage \<Rightarrow> storage" where
  "clearSession st =
     removeItem (removeItem (removeItem (removeItem (removeItem st
       ''id_transporte_token'') ''id_transporte_user'') ''id_transporte_company'')
       ''temp_token'') ''temp_user''"

text \<open>\<^verbatim>\<open>getAuthHeader\<close>: the header object and the storage it leaves.\<close>

definition getAuthHeader :: "js_runtime \<Rightarrow> int \<Rightarrow> storage \<Rightarrow> headers \<times> storage" where
  "getAuthHeader rt now st =
     (let token = activeToken st
      in if \<not> falsy_str token then
           if \<not> isTokenValid rt now st then ([], clearSession st)
           else ([(''Authorization'', ''Bearer '' @ the token)], st)
         else ([], st))"

section \<open>HTTP client core: \<^verbatim>\<open>src/services/api.ts\<close>\<close>

text \<open>
  The fixed messages. The source strings contain accented letters; they are written here
  as their UTF-8 bytes. The substrings the code searches for are ASCII.
\<close>

definition CONFIG_ERROR_MESSAGE :: string where
  "CONFIG_ERROR_MESSAGE =
     ''Erro de configura'' @ [CHR 0xC3, CHR 0xA7, CHR 0xC3, CHR 0xA3] @
     ''o do servidor. Entre em contato com o administrador.''"

definition CONNECTIVITY_MESSAGE :: string where
  "CONNECTIVITY_MESSAGE =
     ''N'' @ [CHR 0xC3, CHR 0xA3] @ ''o foi poss'' @ [CHR 0xC3, CHR 0xAD] @
     ''vel conectar ao servidor. Verifique sua conex'' @ [CHR 0xC3, CHR 0xA3] @ ''o.''"

definition DEFAULT_ERROR_MESSAGE :: string where
  "DEFAULT_ERROR_MESSAGE = ''Erro de conex'' @ [CHR 0xC3, CHR 0xA3] @ ''o''"

definition NOT_AUTHENTICATED_MESSAGE :: string where
  "NOT_AUTHENTICATED_MESSAGE =
     ''Usu'' @ [CHR 0xC3, CHR 0xA1] @ ''rio n'' @ [CHR 0xC3, CHR 0xA3] @ ''o autenticado.''"

text \<open>The body of a request: absent, a string, or a \<^verbatim>\<open>FormData\<close> with its fields.\<close>

datatype req_body = NoBody | TextBody string | FormDataBody "(string \<times> string) list"

fun isFormData :: "req_body \<Rightarrow> bool" where
  "isFormData (FormDataBody fs) = True"
| "isFormData b = False"

text \<open>
  The \<^verbatim>\<open>options\<close> argument (\<^verbatim>\<open>RequestInit\<close>): \<open>None\<close> is a property the caller did
  not supply. Caller headers are a plain object.
\<close>

record request_options =
  opt_method :: "string option"
  opt_headers :: "headers option"
  opt_body :: req_body

text \<open>The second argument of \<^verbatim>\<open>fetch\<close>: what goes on the wire.\<close>

record fetch_init =
  init_method :: "string option"
  init_headers :: headers
  init_body :: req_body

record response =
  status :: nat
  statusText :: string
  json_result :: "thrown + json"
  blob_result :: "thrown + string"

text \<open>\<^verbatim>\<open>response.ok\<close>\<close>

definition ok :: "response \<Rightarrow> bool" where
  "ok r = (200 \<le> status r \<and> status r \<le> 299)"

datatype fetch_outcome = Rejects thrown | Resolves response

text \<open>
  The collaborators outside this file: \<^verbatim>\<open>getBaseUrl\<close> of \<^verbatim>\<open>@/config/api\<close> and the
  network behind \<^verbatim>\<open>fetch\<close>.
\<close>

record env =
  getBaseUrl :: "string \<Rightarrow> thrown + string"
  fetch :: "string \<Rightarrow> fetch_init \<Rightarrow> fetch_outcome"

text \<open>Object spread \<^verbatim>\<open>{...target, ...src}\<close>: later wins, a new key goes last.\<close>

definition spread :: "('k \<times> 'v) list \<Rightarrow> ('k \<times> 'v) list \<Rightarrow> ('k \<times> 'v) list" where
  "spread target src = fold (\<lambda>(k, v). AList.update k v) src target"

text \<open>
  The \<^verbatim>\<open>headers\<close> constant of \<^verbatim>\<open>request\<close>, after the \<^verbatim>\<open>FormData\<close> test.
\<close>

definition mergedHeaders :: "headers \<Rightarrow> request_options \<Rightarrow> headers" where
  "mergedHeaders auth options =
     (let headers =
            spread (spread [(''Content-Type'', ''application/json'')] auth)
              (case opt_headers options of None \<Rightarrow> [] | Some h \<Rightarrow> h)
      in if isFormData (opt_body options) then AList.delete ''Content-Type'' headers else headers)"

text \<open>
  \<^verbatim>\<open>{ headers, ...options }\<close>: the properties of \<^verbatim>\<open>options\<close> are copied after
  \<^verbatim>\<open>headers\<close> is set.
\<close>

definition fetchInit :: "headers \<Rightarrow> request_options \<Rightarrow> fetch_init" where
  "fetchInit headers options =
     \<lparr> init_method = opt_method options,
       init_headers = (case opt_headers options of None \<Rightarrow> headers | Some h \<Rightarrow> h),
       init_body = opt_body options \<rparr>"

text \<open>\<^verbatim>\<open>await response.json().catch(() => null)\<close>\<close>

definition errorDataOf :: "response \<Rightarrow> json" where
  "errorDataOf r = (case json_result r of Inl e \<Rightarrow> JNull | Inr j \<Rightarrow> j)"

text \<open>\<^verbatim>\<open>errorData?.error\<close>\<close>

definition errorField :: "json \<Rightarrow> json option" where
  "errorField errorData = (if errorData = JNull then None else get_prop errorData ''error'')"

text \<open>
  \<^verbatim>\<open>errorData?.error?.includes('secretOrPrivateKey')\<close>: a string searches for the
  substring, an array for the element; any other value that is not \<^verbatim>\<open>null\<close> has no
  \<^verbatim>\<open>includes\<close> method and the call throws a TypeError.
\<close>

definition errorIncludesSecret :: "js_runtime \<Rightarrow> json \<Rightarrow> thrown + bool" where
  "errorIncludesSecret rt errorData =
     (case errorField errorData of
        None \<Rightarrow> Inr False
      | Some JNull \<Rightarrow> Inr False
      | Some (JStr s) \<Rightarrow> Inr (str_includes s ''secretOrPrivateKey'')
      | Some (JArr xs) \<Rightarrow> Inr (JStr ''secretOrPrivateKey'' \<in> set xs)
      | Some v \<Rightarrow> Inl (ErrorObj (notAFunctionMessage rt)))"

text \<open>\<^verbatim>\<open>new Error(errorData?.error || fallback)\<close>\<close>

definition errorOr :: "js_runtime \<Rightarrow> json \<Rightarrow> string \<Rightarrow> thrown" where
  "errorOr rt errorData fallback =
     (let e = errorField errorData
      in if truthy_opt e then ErrorObj (to_string rt (the e)) else ErrorObj fallback)"

text \<open>What the \<^verbatim>\<open>if (!response.ok)\<close> block of \<^verbatim>\<open>request\<close> throws.\<close>

definition notOkThrown :: "js_runtime \<Rightarrow> response \<Rightarrow> thrown" where
  "notOkThrown rt r =
     (let errorData = errorDataOf r
      in case errorIncludesSecret rt errorData of
           Inl e \<Rightarrow> e
         | Inr True \<Rightarrow> ErrorObj CONFIG_ERROR_MESSAGE
         | Inr False \<Rightarrow> errorOr rt errorData (''HTTP '' @ show_nat (status r)))"

text \<open>\<^verbatim>\<open>data && typeof data === 'object' && 'success' in data\<close>\<close>

fun hasSuccessKey :: "json \<Rightarrow> bool" where
  "hasSuccessKey (JObj kvs) = (map_of kvs ''success'' \<noteq> None)"
| "hasSuccessKey v = False"

definition successEnvelope :: "json \<Rightarrow> json" where
  "successEnvelope d = JObj [(''success'', JBool True), (''data'', d)]"

definition failureEnvelope :: "string \<Rightarrow> json" where
  "failureEnvelope msg = JObj [(''success'', JBool False), (''error'', JStr msg)]"

text \<open>The part of the \<^verbatim>\<open>try\<close> block of \<^verbatim>\<open>request\<close> after \<^verbatim>\<open>fetch\<close> has resolved.\<close>

definition handleResponse :: "js_runtime \<Rightarrow> response \<Rightarrow> thrown + json" where
  "handleResponse rt r =
     (if \<not> ok r then Inl (notOkThrown rt r)
      else case json_result r of
             Inl e \<Rightarrow> Inl e
           | Inr d \<Rightarrow> if hasSuccessKey d then Inr d else Inr (successEnvelope d))"

text \<open>
  The result of a call: what it returns or throws, the storage it leaves, and the calls
  of \<^verbatim>\<open>fetch\<close> it made.
\<close>

type_synonym 'a call = "(thrown + 'a) \<times> storage \<times> (string \<times> fetch_init) list"

text \<open>The \<^verbatim>\<open>try\<close> block of \<^verbatim>\<open>request\<close>.\<close>

definition request_try ::
  "js_runtime \<Rightarrow> env \<Rightarrow> int \<Rightarrow> storage \<Rightarrow> string \<Rightarrow> request_options \<Rightarrow> json call" where
  "request_try rt ev now st endpoint options =
     (case getBaseUrl ev endpoint of
        Inl e \<Rightarrow> (Inl e, st, [])
      | Inr baseUrl \<Rightarrow>
          (let fullUrl = baseUrl @ endpoint;
               (auth, st') = getAuthHeader rt now st;
               headers = mergedHeaders auth options;
               init = fetchInit headers options
           in case fetch ev fullUrl init of
                Rejects e \<Rightarrow> (Inl e, st', [(fullUrl, init)])
              | Resolves r \<Rightarrow> (handleResponse rt r, st', [(fullUrl, init)])))"

text \<open>The \<^verbatim>\<open>catch\<close> block of \<^verbatim>\<open>request\<close>.\<close>

definition classifyError :: "thrown \<Rightarrow> string" where
  "classifyError error =
     (case error of
        ErrorObj message \<Rightarrow>
          if str_includes message ''secretOrPrivateKey'' then CONFIG_ERROR_MESSAGE
          else if str_includes message ''Failed to fetch'' then CONNECTIVITY_MESSAGE
          else message
      | NonError \<Rightarrow> DEFAULT_ERROR_MESSAGE)"

definition request ::
  "js_runtime \<Rightarrow> env \<Rightarrow> int \<Rightarrow> storage \<Rightarrow> string \<Rightarrow> request_options \<Rightarrow> json call" where
  "request rt ev now st endpoint options =
     (case request_try rt ev now st endpoint options of
        (Inl error, st', calls) \<Rightarrow> (Inr (failureEnvelope (classifyError error)), st', calls)
      | (Inr v, st', calls) \<Rightarrow> (Inr v, st', calls))"

text \<open>\<^verbatim>\<open>getSecureFile\<close>: the fourth component is what \<^verbatim>\<open>console.error\<close> received.\<close>

definition getSecureFile_try :: "js_runtime \<Rightarrow> env \<Rightarrow> int \<Rightarrow> storage \<Rightarrow> string \<Rightarrow> string call" where
  "getSecureFile_try rt ev now st url =
     (let (headers, st') = getAuthHeader rt now st
      in if length headers = 0 then (Inl (ErrorObj NOT_AUTHENTICATED_MESSAGE), st', [])
         else
           let init = \<lparr> init_method = Some ''GET'', init_headers = headers, init_body = NoBody \<rparr>
           in case fetch ev url init of
                Rejects e \<Rightarrow> (Inl e, st', [(url, init)])
              | Resolves r \<Rightarrow>
                  (if \<not> ok r then
                     (Inl (errorOr rt (errorDataOf r) (''Falha ao buscar o arquivo: '' @ statusText r)),
                      st', [(url, init)])
                   else case blob_result r of
                          Inl e \<Rightarrow> (Inl e, st', [(url, init)])
                        | Inr blob \<Rightarrow> (Inr (createObjectURL rt blob), st', [(url, init)])))"

definition getSecureFile ::
  "js_runtime \<Rightarrow> env \<Rightarrow> int \<Rightarrow> storage \<Rightarrow> string \<Rightarrow> string call \<times> thrown list" where
  "getSecureFile rt ev now st url =
     (case getSecureFile_try rt ev now st url of
        (Inl error, st', calls) \<Rightarrow> ((Inl error, st', calls), [error])
      | (Inr v, st', calls) \<Rightarrow> ((Inr v, st', calls), []))"

text \<open>
  The unwrapping of \<^verbatim>\<open>login\<close>:
  \<^verbatim>\<open>if (response.success && response.data && response.data.data)
    return { ...response, data: response.data.data }; return response\<close>.
  The envelope that \<^verbatim>\<open>request\<close> returns is always an object.
\<close>

definition unwrapNested :: "json \<Rightarrow> json" where
  "unwrapNested response =
     (case response of
        JObj kvs \<Rightarrow>
          if truthy_opt (map_of kvs ''success'') \<and> truthy_opt (map_of kvs ''data'')
             \<and> truthy_opt (get_prop (the (map_of kvs ''data'')) ''data'')
          then JObj (AList.update ''data'' (the (get_prop (the (map_of kvs ''data'')) ''data'')) kvs)
          else response
      | _ \<Rightarrow> response)"

definition login :: "js_runtime \<Rightarrow> env \<Rightarrow> int \<Rightarrow> storage \<Rightarrow> json \<Rightarrow> json call" where
  "login rt ev now st credentials =
     (case request rt ev now st ''/api/auth/login''
             \<lparr> opt_method = Some ''POST'', opt_headers = None,
               opt_body = TextBody (JSON_stringify rt credentials) \<rparr> of
        (Inl e, st', calls) \<Rightarrow> (Inl e, st', calls)
      | (Inr response, st', calls) \<Rightarrow> (Inr (unwrapNested response), st', calls))"

text \<open>
  \<^verbatim>\<open>uploadCompanyLogo\<close> builds its own header from the final token and calls
  \<^verbatim>\<open>fetch\<close> itself.
\<close>

definition uploadCompanyLogo_try ::
  "js_runtime \<Rightarrow> env \<Rightarrow> storage \<Rightarrow> string \<Rightarrow> string \<Rightarrow> json call" where
  "uploadCompanyLogo_try rt ev st companyId logoFile =
     (let token = st ''id_transporte_token''
      in case getBaseUrl ev ''/api/companies'' of
           Inl e \<Rightarrow> (Inl e, st, [])
         | Inr baseUrl \<Rightarrow>
             (let url = baseUrl @ ''/api/companies/'' @ companyId @ ''/logo'';
                  init = \<lparr> init_method = Some ''POST'',
                           init_headers =
                             (if \<not> falsy_str token then [(''Authorization'', ''Bearer '' @ the token)]
                              else []),
                           init_body = FormDataBody [(''logo'', logoFile)] \<rparr>
              in case fetch ev url init of
                   Rejects e \<Rightarrow> (Inl e, st, [(url, init)])
                 | Resolves r \<Rightarrow>
                     (if \<not> ok r then
                        (Inl (errorOr rt (errorDataOf r) (''HTTP '' @ show_nat (status r))),
                         st, [(url, init)])
                      else case json_result r of
                             Inl e \<Rightarrow> (Inl e, st, [(url, init)])
                           | Inr d \<Rightarrow> (Inr (successEnvelope d), st, [(url, init)]))))"

definition uploadCompanyLogo ::
  "js_runtime \<Rightarrow> env \<Rightarrow> storage \<Rightarrow> string \<Rightarrow> string \<Rightarrow> json call" where
  "uploadCompanyLogo rt ev st companyId logoFile =
     (case uploadCompanyLogo_try rt ev st companyId logoFile of
        (Inl error, st', calls) \<Rightarrow>
          (Inr (failureEnvelope
                  (case error of ErrorObj message \<Rightarrow> message | NonError \<Rightarrow> ''Erro no upload do logo'')),
           st', calls)
      | (Inr v, st', calls) \<Rightarrow> (Inr v, st', calls))"

section \<open>Supervisor dashboard: \<^verbatim>\<open>src/pages/dashboard/DriverForm.tsx\<close>\<close>

datatype MovementStatus = Moving | Idle | Offline

text \<open>
  Modelled from the spec: the thresholds of \<^verbatim>\<open>@/lib/driver-status\<close>, which is not
  among the sources. Section 4.4 of the specification calls them policy constants and
  gives no values, so they are parameters of the model.
\<close>

record thresholds =
  STALE_AFTER_MS :: int
  MOVING_ABOVE_KMH :: real

text \<open>
  Modelled from the spec: the clamp of \<^verbatim>\<open>@/lib/driver-status\<close>. Section 4.4:
  negative speed values are clamped to zero before any threshold comparison.
\<close>

definition clampSpeed :: "jsnum \<Rightarrow> jsnum" where
  "clampSpeed speed = (if num_less speed (Fin 0) then Fin 0 else speed)"

text \<open>
  Modelled from the spec: \<^verbatim>\<open>computeMovementStatus\<close> of \<^verbatim>\<open>@/lib/driver-status\<close> is
  imported by the dashboard and is not among the sources. Section 4.4 of the
  specification: offline if the last update is absent or unparsable, or if
  \<^verbatim>\<open>now - lastUpdate\<close> exceeds the staleness threshold; else moving if the clamped
  speed exceeds the movement threshold; else idle.
\<close>

definition computeMovementStatus ::
  "js_runtime \<Rightarrow> thresholds \<Rightarrow> jsnum \<Rightarrow> string option \<Rightarrow> int \<Rightarrow> MovementStatus" where
  "computeMovementStatus rt th speed last_update now =
     (case last_update of
        None \<Rightarrow> Offline
      | Some lastUpdateISO \<Rightarrow>
          (case Date_parse rt lastUpdateISO of
             None \<Rightarrow> Offline
           | Some t \<Rightarrow>
               if now - t > STALE_AFTER_MS th then Offline
               else if num_greater (clampSpeed speed) (Fin (MOVING_ABOVE_KMH th)) then Moving
               else Idle))"

record DriverStatusItem =
  item_id :: string
  item_name :: string
  item_speed :: jsnum
  item_lastUpdate :: "string option"
  item_status :: MovementStatus

text \<open>\<^verbatim>\<open>a ?? b\<close>\<close>

definition nullish :: "json option \<Rightarrow> bool" where
  "nullish v = (v = None \<or> v = Some JNull)"

definition coalesce :: "json option \<Rightarrow> json option \<Rightarrow> json option" where
  "coalesce a b = (if nullish a then b else a)"

text \<open>The callback of \<^verbatim>\<open>.map\<close> in \<^verbatim>\<open>loadDriverStatuses\<close>; \<open>None\<close> is \<^verbatim>\<open>null\<close>.\<close>

definition normalizeDriver ::
  "js_runtime \<Rightarrow> thresholds \<Rightarrow> int \<Rightarrow> json \<Rightarrow> DriverStatusItem option" where
  "normalizeDriver rt th now raw =
     (let driver = (if raw = JNull then JObj [] else raw);
          id = coalesce (get_prop driver ''driver_id'') (get_prop driver ''id'')
      in if nullish id then None
         else
           let speedValueRaw = get_prop driver ''speed'';
               speedValue = to_number rt (the (coalesce speedValueRaw (Some (JNum (Fin 0)))));
               safeSpeed = (if isFinite speedValue then speedValue else Fin 0);
               lastUpdateValue = get_prop driver ''last_update'';
               lastUpdate = (case lastUpdateValue of Some (JStr s) \<Rightarrow> Some s | _ \<Rightarrow> None)
           in Some
                \<lparr> item_id = to_string rt (the id),
                  item_name =
                    to_string rt (the (coalesce (get_prop driver ''driver_name'') (Some (JStr ''Motorista'')))),
                  item_speed = safeSpeed,
                  item_lastUpdate = lastUpdate,
                  item_status =
                    computeMovementStatus rt th
                      (case speedValueRaw of Some (JNum n) \<Rightarrow> n | _ \<Rightarrow> safeSpeed)
                      lastUpdate now \<rparr>)"

text \<open>
  \<^verbatim>\<open>Array.prototype.sort\<close> with a comparator: the sort is stable, so with a consistent
  comparator its result is that of inserting each element before the first element it
  does not follow.
\<close>

fun insertSorted :: "('a \<Rightarrow> 'a \<Rightarrow> int) \<Rightarrow> 'a \<Rightarrow> 'a list \<Rightarrow> 'a list" where
  "insertSorted cmp x [] = [x]"
| "insertSorted cmp x (y # ys) =
     (if cmp x y \<le> 0 then x # y # ys else y # insertSorted cmp x ys)"

definition sortBy :: "('a \<Rightarrow> 'a \<Rightarrow> int) \<Rightarrow> 'a list \<Rightarrow> 'a list" where
  "sortBy cmp xs = foldr (insertSorted cmp) xs []"

definition compareNames :: "js_runtime \<Rightarrow> DriverStatusItem \<Rightarrow> DriverStatusItem \<Rightarrow> int" where
  "compareNames rt a b = localeCompare rt (item_name a) (item_name b)"

text \<open>The \<^verbatim>\<open>.map(...).filter(Boolean).sort(...)\<close> chain.\<close>

definition normalizeDrivers ::
  "js_runtime \<Rightarrow> thresholds \<Rightarrow> int \<Rightarrow> json list \<Rightarrow> DriverStatusItem list" where
  "normalizeDrivers rt th now data =
     sortBy (compareNames rt) (List.map_filter (normalizeDriver rt th now) data)"

text \<open>What \<^verbatim>\<open>loadDriverStatuses\<close> does to the component, in order.\<close>

datatype event =
    SetDriversLoading bool
  | SetDriverStatuses "DriverStatusItem list"
  | ConsoleError thrown
  | Toast string string string

text \<open>
  \<^verbatim>\<open>loadDriverStatuses({ silent })\<close>. \<open>apiResult\<close> is the outcome of
  \<^verbatim>\<open>await apiService.getCurrentLocations()\<close>: a throw, or the envelope object.
\<close>

definition loadDriverStatuses ::
  "js_runtime \<Rightarrow> thresholds \<Rightarrow> int \<Rightarrow> bool \<Rightarrow> thrown + (string \<times> json) list \<Rightarrow> event list" where
  "loadDriverStatuses rt th now silent apiResult =
     (if \<not> silent then [SetDriversLoading True] else []) @
     (case apiResult of
        Inr response \<Rightarrow>
          (case map_of response ''data'' of
             Some (JArr data) \<Rightarrow>
               if truthy_opt (map_of response ''success'')
               then [SetDriverStatuses (normalizeDrivers rt th now data)] else []
           | _ \<Rightarrow> [])
      | Inl error \<Rightarrow>
          ConsoleError error #
          (if \<not> silent
           then [Toast ''Falha ao carregar motoristas''
                   ''Nao foi possivel atualizar o status dos motoristas.'' ''destructive'']
           else [])) @
     (if \<not> silent then [SetDriversLoading False] else [])"

text \<open>The component state that the events change.\<close>

record dashboard =
  driverStatuses :: "DriverStatusItem list"
  driversLoading :: bool
  toasts :: "(string \<times> string \<times> string) list"

fun applyEvent :: "dashboard \<Rightarrow> event \<Rightarrow> dashboard" where
  "applyEvent d (SetDriversLoading b) = d\<lparr>driversLoading := b\<rparr>"
| "applyEvent d (SetDriverStatuses xs) = d\<lparr>driverStatuses := xs\<rparr>"
| "applyEvent d (ConsoleError e) = d"
| "applyEvent d (Toast t ds v) = d\<lparr>toasts := toasts d @ [(t, ds, v)]\<rparr>"

text \<open>The states the component goes through: one after each event.\<close>

fun statesThrough :: "dashboard \<Rightarrow> event list \<Rightarrow> dashboard list" where
  "statesThrough d [] = [d]"
| "statesThrough d (e # es) = d # statesThrough (applyEvent d e) es"

fun isToast :: "event \<Rightarrow> bool" where
  "isToast (Toast t d v) = True"
| "isToast e = False"



section \<open>A runtime for the examples\<close>

text \<open>
  The built-in functions restricted to the arguments that the examples below use: each
  table entry is what the real function returns there, and every other argument is
  answered as a failure (or NaN, or the empty string).
\<close>

definition sample_payload_text :: string where
  "sample_payload_text = ''{'' @ [CHR 0x22] @ ''exp'' @ [CHR 0x22] @ '':2000000000}''"

definition sample_token :: string where
  "sample_token = ''h.eyJleHAiOjIwMDAwMDAwMDB9.s''"

text \<open>
  A payload whose base64url text contains \<^verbatim>\<open>-\<close> and \<^verbatim>\<open>_\<close>, and a payload whose
  \<^verbatim>\<open>exp\<close> is a string.
\<close>

definition sample_url_payload_text :: string where
  "sample_url_payload_text =
     ''{'' @ [CHR 0x22] @ ''exp'' @ [CHR 0x22] @ '':2000000000,'' @ [CHR 0x22] @ ''k'' @ [CHR 0x22] @
     '':'' @ [CHR 0x22] @ ''~~~???'' @ [CHR 0x22] @ ''}''"

definition sample_url_token :: string where
  "sample_url_token = ''h.eyJleHAiOjIwMDAwMDAwMDAsImsiOiJ-fn4_Pz8ifQ.s''"

definition sample_string_exp_text :: string where
  "sample_string_exp_text =
     ''{'' @ [CHR 0x22] @ ''exp'' @ [CHR 0x22] @ '':'' @ [CHR 0x22] @ ''2000000000'' @ [CHR 0x22] @ ''}''"

definition sample_atob :: "string \<Rightarrow> string option" where
  "sample_atob s =
     (if s = ''eyJleHAiOjIwMDAwMDAwMDB9'' then Some sample_payload_text
      else if s = ''eyJleHAiOjIwMDAwMDAwMDAsImsiOiJ+fn4/Pz8ifQ'' then Some sample_url_payload_text
      else if s = ''eyJleHAiOiIyMDAwMDAwMDAwIn0'' then Some sample_string_exp_text
      else None)"

definition sample_JSON_parse :: "string \<Rightarrow> json option" where
  "sample_JSON_parse s =
     (if s = sample_payload_text then Some (JObj [(''exp'', JNum (Fin 2000000000))])
      else if s = sample_url_payload_text
      then Some (JObj [(''exp'', JNum (Fin 2000000000)), (''k'', JStr ''~~~???'')])
      else if s = sample_string_exp_text then Some (JObj [(''exp'', JStr ''2000000000'')])
      else None)"

definition sample_StringToNumber :: "string \<Rightarrow> jsnum" where
  "sample_StringToNumber s =
     (if s = [] then Fin 0 else if s = ''12.5'' then Fin 12.5
      else if s = ''2000000000'' then Fin 2000000000 else NaN)"

definition sample_NumberToString :: "jsnum \<Rightarrow> string" where
  "sample_NumberToString n = (if n = Fin 7 then ''7'' else if n = NaN then ''NaN'' else [])"

definition sample_Date_parse :: "string \<Rightarrow> int option" where
  "sample_Date_parse s = (if s = ''2025-01-01T00:00:00.000Z'' then Some 1735689600000 else None)"

definition sample_localeCompare :: "string \<Rightarrow> string \<Rightarrow> int" where
  "sample_localeCompare a b =
     (if a = b then 0 else if a = ''Ana'' \<and> b = ''Bruno'' then - 1 else 1)"

definition sample_credentials :: json where
  "sample_credentials = JObj [(''username'', JStr ''ana''), (''password'', JStr ''pw'')]"

definition sample_JSON_stringify :: "json \<Rightarrow> string" where
  "sample_JSON_stringify j =
     (if j = sample_credentials
      then ''{'' @ [CHR 0x22] @ ''username'' @ [CHR 0x22] @ '':'' @ [CHR 0x22] @ ''ana'' @ [CHR 0x22] @
           '','' @ [CHR 0x22] @ ''password'' @ [CHR 0x22] @ '':'' @ [CHR 0x22] @ ''pw'' @ [CHR 0x22] @ ''}''
      else [])"

definition sample_runtime :: js_runtime where
  "sample_runtime =
     \<lparr> atob = sample_atob,
       JSON_parse = sample_JSON_parse,
       StringToNumber = sample_StringToNumber,
       NumberToString = sample_NumberToString,
       notAFunctionMessage = ''errorData?.error?.includes is not a function'',
       Date_parse = sample_Date_parse,
       localeCompare = sample_localeCompare,
       JSON_stringify = sample_JSON_stringify,
       createObjectURL = (\<lambda>blob. ''blob:sample'') \<rparr>"

definition sample_thresholds :: thresholds where
  "sample_thresholds = \<lparr> STALE_AFTER_MS = 300000, MOVING_ABOVE_KMH = 10 \<rparr>"

text \<open>A storage holding only a final token.\<close>

definition storageWithToken :: "string \<Rightarrow> storage" where
  "storageWithToken t = [''id_transporte_token'' \<mapsto> t]"

text \<open>
  An environment whose base URL is \<open>base\<close> for every endpoint and whose network answers
  every call with \<open>out\<close>.
\<close>

definition fixedEnv :: "string \<Rightarrow> fetch_outcome \<Rightarrow> env" where
  "fixedEnv base out = \<lparr> getBaseUrl = (\<lambda>endpoint. Inr base), fetch = (\<lambda>url init. out) \<rparr>"

text \<open>A login payload, and the environment that answers 200 with a given body.\<close>

definition sample_login_payload :: json where
  "sample_login_payload = JObj [(''token'', JStr ''t''), (''user'', JObj [(''id'', JStr ''1'')])]"

definition loginEnv :: "json \<Rightarrow> env" where
  "loginEnv body =
     fixedEnv ''http://localhost:3000''
       (Resolves \<lparr> status = 200, statusText = ''OK'', json_result = Inr body,
                   blob_result = Inl NonError \<rparr>)"

text \<open>A response of the tracking service.\<close>

definition sample_locations :: "json list" where
  "sample_locations =
     [JObj [(''driver_id'', JStr ''2''), (''driver_name'', JStr ''Bruno''), (''speed'', JStr ''12.5'')],
      JObj [(''driver_name'', JStr ''Carla''), (''speed'', JNum (Fin 40))],
      JObj [(''id'', JStr ''1''), (''driver_name'', JStr ''Ana''), (''speed'', JStr ''fast'')]]"

section \<open>Token validity\<close>

lemma split_empty: "split [] sep = [[]]"
  by (simp add: split_def)

lemma length_three: "length xs = 3 \<longleftrightarrow> (\<exists>a b c. xs = [a, b, c])"
  by (auto simp: numeral_3_eq_3 length_Suc_conv)

lemma isTokenValid_try_iff:
  "isTokenValid_try rt now token = Some True \<longleftrightarrow>
     (\<exists>header segment signature decoded payload.
        split token (CHR ''.'') = [header, segment, signature] \<and>
        atob rt (replace_all (CHR ''_'') (CHR ''/'') (replace_all (CHR ''-'') (CHR ''+'') segment)) = Some decoded \<and>
        JSON_parse rt decoded = Some payload \<and>
        payload \<noteq> JNull \<and>
        num_greater (to_number_opt rt (get_prop payload ''exp'')) (Fin (of_int (now div 1000))))"
proof (cases "length (split token (CHR ''.'')) = 3")
  case False
  then show ?thesis by (auto simp: isTokenValid_try_def)
next
  case True
  then obtain h s g where sp: "split token (CHR ''.'') = [h, s, g]"
    unfolding length_three by blast
  show ?thesis unfolding isTokenValid_try_def Let_def sp
    by (simp add: exp_after_def split: option.splits)
qed

lemma isTokenValid_active:
  "activeToken st = Some token \<Longrightarrow> token \<noteq> [] \<Longrightarrow>
   isTokenValid rt now st = (isTokenValid_try rt now token = Some True)"
  by (auto simp: isTokenValid_def falsy_str_def split: option.splits)

lemma isTokenValid_no_token: "falsy_str (activeToken st) \<Longrightarrow> \<not> isTokenValid rt now st"
  by (simp add: isTokenValid_def)

lemma num_greater_Fin [simp]: "num_greater (Fin a) (Fin b) = (b < a)"
  by (simp add: num_greater_def)

lemma sample_split: "split sample_token (CHR ''.'') = [''h'', ''eyJleHAiOjIwMDAwMDAwMDB9'', ''s'']"
  by (simp add: split_def sample_token_def)

lemma sample_active: "activeToken (storageWithToken sample_token) = Some sample_token"
  by (simp add: activeToken_def storageWithToken_def falsy_str_def sample_token_def)

lemma sample_try:
  "isTokenValid_try sample_runtime now sample_token = Some (now div 1000 < 2000000000)"
  by (simp add: isTokenValid_try_def sample_split replace_all_def sample_runtime_def sample_atob_def
      sample_JSON_parse_def exp_after_def to_number_opt_def)

lemma sample_valid:
  "isTokenValid sample_runtime now (storageWithToken sample_token) = (now div 1000 < 2000000000)"
proof -
  have "sample_token \<noteq> []" by (simp add: sample_token_def)
  from isTokenValid_active [OF sample_active this] show ?thesis
    by (simp add: sample_try)
qed

lemma isTokenValid_iff:
  "isTokenValid rt now st =
     (\<exists>token header segment signature decoded payload.
        activeToken st = Some token \<and>
        split token (CHR ''.'') = [header, segment, signature] \<and>
        atob rt (replace_all (CHR ''_'') (CHR ''/'') (replace_all (CHR ''-'') (CHR ''+'') segment)) = Some decoded \<and>
        JSON_parse rt decoded = Some payload \<and>
        payload \<noteq> JNull \<and>
        num_greater (to_number_opt rt (get_prop payload ''exp'')) (Fin (of_int (now div 1000))))"
proof (cases "activeToken st")
  case None
  then show ?thesis by (simp add: isTokenValid_def falsy_str_def)
next
  case (Some token)
  show ?thesis
  proof (cases "token = []")
    case True
    then show ?thesis using Some by (simp add: isTokenValid_def falsy_str_def split_empty)
  next
    case False
    have "isTokenValid rt now st = (isTokenValid_try rt now token = Some True)"
      using Some False by (rule isTokenValid_active)
    then show ?thesis unfolding isTokenValid_try_iff using Some by simp
  qed
qed


lemma split_acc_no_sep: "sep \<notin> set s \<Longrightarrow> split_acc sep acc s = [rev acc @ s]"
  by (induction s arbitrary: acc) auto

lemma split_acc_sep:
  "sep \<notin> set a \<Longrightarrow> split_acc sep acc (a @ sep # rest) = (rev acc @ a) # split_acc sep [] rest"
  by (induction a arbitrary: acc) auto

lemma split_acc_not_Nil: "split_acc sep acc s \<noteq> []"
  by (induction s arbitrary: acc) auto

lemma split_cases:
  obtains (none) "sep \<notin> set s" "split s sep = [s]"
  | (some) a rest where "s = a @ sep # rest" "sep \<notin> set a" "split s sep = a # split rest sep"
proof (cases "sep \<in> set s")
  case False
  then show ?thesis using none by (simp add: split_def split_acc_no_sep)
next
  case True
  then obtain a rest where d: "s = a @ sep # rest" "sep \<notin> set a"
    by (meson split_list_first)
  then have "split s sep = a # split rest sep"
    by (simp add: split_def split_acc_sep)
  then show ?thesis using some d by blast
qed

lemma split_not_Nil: "split s sep \<noteq> []"
  by (simp add: split_def split_acc_not_Nil)

lemma split_one:
  assumes "split s sep = [c]"
  shows "s = c \<and> sep \<notin> set c"
proof (rule split_cases [of sep s])
  assume "sep \<notin> set s" "split s sep = [s]"
  then show ?thesis using assms by simp
next
  fix a rest
  assume "s = a @ sep # rest" "sep \<notin> set a" "split s sep = a # split rest sep"
  then show ?thesis using assms split_not_Nil [of rest sep] by simp
qed

lemma split_two:
  assumes "split s sep = [b, c]"
  shows "s = b @ sep # c \<and> sep \<notin> set b \<and> sep \<notin> set c"
proof (rule split_cases [of sep s])
  assume "sep \<notin> set s" "split s sep = [s]"
  then show ?thesis using assms by simp
next
  fix a rest
  assume h: "s = a @ sep # rest" "sep \<notin> set a" "split s sep = a # split rest sep"
  then have "a = b" and "split rest sep = [c]" using assms by simp_all
  then show ?thesis using h split_one [of rest sep c] by simp
qed

lemma split_three_iff:
  "split s sep = [a, b, c] \<longleftrightarrow>
     s = a @ sep # b @ sep # c \<and> sep \<notin> set a \<and> sep \<notin> set b \<and> sep \<notin> set c"
proof
  assume t: "split s sep = [a, b, c]"
  show "s = a @ sep # b @ sep # c \<and> sep \<notin> set a \<and> sep \<notin> set b \<and> sep \<notin> set c"
  proof (rule split_cases [of sep s])
    assume "sep \<notin> set s" "split s sep = [s]"
    then show ?thesis using t by simp
  next
    fix a' rest
    assume h: "s = a' @ sep # rest" "sep \<notin> set a'" "split s sep = a' # split rest sep"
    then have "a' = a" and "split rest sep = [b, c]" using t by simp_all
    then show ?thesis using h split_two [of rest sep b c] by simp
  qed
next
  assume "s = a @ sep # b @ sep # c \<and> sep \<notin> set a \<and> sep \<notin> set b \<and> sep \<notin> set c"
  then show "split s sep = [a, b, c]"
    by (simp add: split_def split_acc_sep split_acc_no_sep)
qed

lemma base64url_translation:
  "replace_all (CHR ''_'') (CHR ''/'') (replace_all (CHR ''-'') (CHR ''+'') segment) =
     map (\<lambda>c. if c = CHR ''-'' then CHR ''+'' else if c = CHR ''_'' then CHR ''/'' else c) segment"
  by (simp add: replace_all_def)

lemma activeToken_iff:
  "activeToken st = Some token \<longleftrightarrow>
     (if st ''id_transporte_token'' = None \<or> st ''id_transporte_token'' = Some []
      then st ''temp_token'' = Some token else st ''id_transporte_token'' = Some token)"
  by (auto simp: activeToken_def falsy_str_def Let_def split: option.splits)

lemma num_less_Fin_iff: "num_less (Fin c) n \<longleftrightarrow> (\<exists>x. n = Fin x \<and> c < x) \<or> n = PosInf"
  by (cases n) auto

lemma to_number_cases:
  "to_number rt e = n \<longleftrightarrow>
     (e = JNum n \<or> (\<exists>s. e = JStr s \<and> n = StringToNumber rt s) \<or> (e = JBool True \<and> n = Fin 1) \<or>
      ((e = JBool False \<or> e = JNull) \<and> n = Fin 0) \<or>
      (\<exists>xs. e = JArr xs \<and> n = StringToNumber rt (to_string rt (JArr xs))) \<or>
      (\<exists>ps. e = JObj ps \<and> n = StringToNumber rt ''[object Object]''))"
  by (cases e) auto

lemma exp_condition:
  "payload \<noteq> JNull \<and> num_greater (to_number_opt rt (get_prop payload ''exp'')) (Fin c) \<longleftrightarrow>
     (\<exists>kvs e n. payload = JObj kvs \<and> map_of kvs ''exp'' = Some e \<and>
        (e = JNum n \<or> (\<exists>s. e = JStr s \<and> n = StringToNumber rt s) \<or> (e = JBool True \<and> n = Fin 1) \<or>
         ((e = JBool False \<or> e = JNull) \<and> n = Fin 0) \<or>
         (\<exists>xs. e = JArr xs \<and> n = StringToNumber rt (to_string rt (JArr xs))) \<or>
         (\<exists>ps. e = JObj ps \<and> n = StringToNumber rt ''[object Object]'')) \<and>
        ((\<exists>x. n = Fin x \<and> c < x) \<or> n = PosInf))"
proof -
  have "payload \<noteq> JNull \<and> num_greater (to_number_opt rt (get_prop payload ''exp'')) (Fin c) \<longleftrightarrow>
     (\<exists>kvs e n. payload = JObj kvs \<and> map_of kvs ''exp'' = Some e \<and> to_number rt e = n \<and>
        num_less (Fin c) n)"
    by (cases payload) (auto simp: num_greater_def to_number_opt_def split: option.splits)
  then show ?thesis unfolding to_number_cases num_less_Fin_iff .
qed

text \<open>
  Claim C4, as the code has it. \<^verbatim>\<open>isTokenValid\<close> is a total predicate on the active
  token: the final token, or the temporary one when the final one is absent or empty. It
  is true exactly when the token is three segments without dots joined by two dots, the
  second segment, with \<^verbatim>\<open>-\<close> replaced by \<^verbatim>\<open>+\<close> and \<^verbatim>\<open>_\<close> by \<^verbatim>\<open>/\<close>, decodes
  with \<^verbatim>\<open>atob\<close>, the decoded text parses as JSON to an object with an \<^verbatim>\<open>exp\<close>
  property, and that property, converted to a number as the comparison of JavaScript
  converts it (a number as it is, a string by its numeric value, \<^verbatim>\<open>true\<close> as 1,
  \<^verbatim>\<open>false\<close> and \<^verbatim>\<open>null\<close> as 0, an array or an object through its string), is
  greater than the current time in whole seconds. In every other case, a throw of the
  decoder or of the parser included, it is false.
\<close>

theorem isTokenValid_characterisation:
  "isTokenValid rt now st =
     (\<exists>token header segment signature decoded payload.
        (if st ''id_transporte_token'' = None \<or> st ''id_transporte_token'' = Some []
         then st ''temp_token'' = Some token else st ''id_transporte_token'' = Some token) \<and>
        (token = header @ CHR ''.'' # segment @ CHR ''.'' # signature \<and>
         CHR ''.'' \<notin> set header \<and> CHR ''.'' \<notin> set segment \<and> CHR ''.'' \<notin> set signature) \<and>
        atob rt (map (\<lambda>c. if c = CHR ''-'' then CHR ''+'' else if c = CHR ''_'' then CHR ''/'' else c)
                   segment) = Some decoded \<and>
        JSON_parse rt decoded = Some payload \<and>
        (\<exists>kvs e n. payload = JObj kvs \<and> map_of kvs ''exp'' = Some e \<and>
           (e = JNum n \<or> (\<exists>s. e = JStr s \<and> n = StringToNumber rt s) \<or> (e = JBool True \<and> n = Fin 1) \<or>
            ((e = JBool False \<or> e = JNull) \<and> n = Fin 0) \<or>
            (\<exists>xs. e = JArr xs \<and> n = StringToNumber rt (to_string rt (JArr xs))) \<or>
            (\<exists>ps. e = JObj ps \<and> n = StringToNumber rt ''[object Object]'')) \<and>
           ((\<exists>x. n = Fin x \<and> real_of_int (now div 1000) < x) \<or> n = PosInf)))"
  unfolding isTokenValid_iff activeToken_iff split_three_iff base64url_translation
    exp_condition [of _ rt "real_of_int (now div 1000)"] ..

text \<open>
  A token whose \<^verbatim>\<open>exp\<close> is 2000000000: valid one second before and invalid at that
  second; valid from the temporary slot when the final slot is absent or empty, and not
  consulted when the final slot holds another string; valid when its segment uses the
  URL alphabet; a token of four segments is invalid.
\<close>

theorem isTokenValid_characterisation_witness:
  "isTokenValid sample_runtime 1999999999999 [''id_transporte_token'' \<mapsto> sample_token] \<and>
   \<not> isTokenValid sample_runtime 2000000000000 [''id_transporte_token'' \<mapsto> sample_token] \<and>
   isTokenValid sample_runtime 1999999999999 [''temp_token'' \<mapsto> sample_token] \<and>
   isTokenValid sample_runtime 1999999999999
     [''id_transporte_token'' \<mapsto> [], ''temp_token'' \<mapsto> sample_token] \<and>
   \<not> isTokenValid sample_runtime 1999999999999
     [''id_transporte_token'' \<mapsto> ''not-a-token'', ''temp_token'' \<mapsto> sample_token] \<and>
   isTokenValid sample_runtime 1999999999999 [''id_transporte_token'' \<mapsto> sample_url_token] \<and>
   \<not> isTokenValid sample_runtime 1999999999999 [''id_transporte_token'' \<mapsto> ''h.e30.s.x'']"
proof -
  note ev = sample_token_def sample_runtime_def sample_atob_def sample_JSON_parse_def
    sample_payload_text_def sample_url_payload_text_def sample_string_exp_text_def
  have a: "isTokenValid sample_runtime 1999999999999 [''id_transporte_token'' \<mapsto> sample_token]"
    unfolding isTokenValid_characterisation
    apply (rule exI [of _ sample_token], rule exI [of _ "''h''"],
        rule exI [of _ "''eyJleHAiOjIwMDAwMDAwMDB9''"], rule exI [of _ "''s''"],
        rule exI [of _ sample_payload_text], rule exI [of _ "JObj [(''exp'', JNum (Fin 2000000000))]"])
    apply (simp add: ev)
    done
  have b: "\<not> isTokenValid sample_runtime 2000000000000 [''id_transporte_token'' \<mapsto> sample_token]"
    unfolding isTokenValid_characterisation
    by (auto simp: ev Cons_eq_append_conv)
  have c: "isTokenValid sample_runtime 1999999999999 [''temp_token'' \<mapsto> sample_token]"
    unfolding isTokenValid_characterisation
    apply (rule exI [of _ sample_token], rule exI [of _ "''h''"],
        rule exI [of _ "''eyJleHAiOjIwMDAwMDAwMDB9''"], rule exI [of _ "''s''"],
        rule exI [of _ sample_payload_text], rule exI [of _ "JObj [(''exp'', JNum (Fin 2000000000))]"])
    apply (simp add: ev)
    done
  have d: "isTokenValid sample_runtime 1999999999999
     [''id_transporte_token'' \<mapsto> [], ''temp_token'' \<mapsto> sample_token]"
    unfolding isTokenValid_characterisation
    apply (rule exI [of _ sample_token], rule exI [of _ "''h''"],
        rule exI [of _ "''eyJleHAiOjIwMDAwMDAwMDB9''"], rule exI [of _ "''s''"],
        rule exI [of _ sample_payload_text], rule exI [of _ "JObj [(''exp'', JNum (Fin 2000000000))]"])
    apply (simp add: ev)
    done
  have e: "\<not> isTokenValid sample_runtime 1999999999999
     [''id_transporte_token'' \<mapsto> ''not-a-token'', ''temp_token'' \<mapsto> sample_token]"
    unfolding isTokenValid_characterisation
    by (auto simp: Cons_eq_append_conv)
  have f: "isTokenValid sample_runtime 1999999999999 [''id_transporte_token'' \<mapsto> sample_url_token]"
    unfolding isTokenValid_characterisation
    apply (rule exI [of _ sample_url_token], rule exI [of _ "''h''"],
        rule exI [of _ "''eyJleHAiOjIwMDAwMDAwMDAsImsiOiJ-fn4_Pz8ifQ''"], rule exI [of _ "''s''"],
        rule exI [of _ sample_url_payload_text],
        rule exI [of _ "JObj [(''exp'', JNum (Fin 2000000000)), (''k'', JStr ''~~~???'')]"])
    apply (simp add: ev sample_url_token_def)
    done
  have g: "\<not> isTokenValid sample_runtime 1999999999999 [''id_transporte_token'' \<mapsto> ''h.e30.s.x'']"
    unfolding isTokenValid_characterisation
    by (auto simp: Cons_eq_append_conv)
  show ?thesis using a b c d e f g by simp
qed

text \<open>
  Claim C4 as stated fails for a token whose payload is \<^verbatim>\<open>{"exp":"2000000000"}\<close>:
  its \<^verbatim>\<open>exp\<close> is a string, not a number, and the token is accepted.
\<close>

theorem string_exp_accepted_counterexample:
  "JSON_parse sample_runtime (the (atob sample_runtime ''eyJleHAiOiIyMDAwMDAwMDAwIn0'')) =
     Some (JObj [(''exp'', JStr ''2000000000'')]) \<and>
   isTokenValid sample_runtime 1999999999999 [''id_transporte_token'' \<mapsto> ''h.eyJleHAiOiIyMDAwMDAwMDAwIn0.s'']"
proof -
  have p: "JSON_parse sample_runtime (the (atob sample_runtime ''eyJleHAiOiIyMDAwMDAwMDAwIn0'')) =
     Some (JObj [(''exp'', JStr ''2000000000'')])"
    by (simp add: sample_runtime_def sample_atob_def sample_JSON_parse_def sample_payload_text_def
        sample_url_payload_text_def sample_string_exp_text_def)
  have s: "split ''h.eyJleHAiOiIyMDAwMDAwMDAwIn0.s'' (CHR ''.'') = [''h'', ''eyJleHAiOiIyMDAwMDAwMDAwIn0'', ''s'']"
    by (simp add: split_def)
  have "isTokenValid sample_runtime 1999999999999
      [''id_transporte_token'' \<mapsto> ''h.eyJleHAiOiIyMDAwMDAwMDAwIn0.s'']"
    by (simp add: isTokenValid_def activeToken_def falsy_str_def isTokenValid_try_def s replace_all_def
        sample_runtime_def sample_atob_def sample_JSON_parse_def sample_payload_text_def
        sample_url_payload_text_def sample_string_exp_text_def exp_after_def to_number_opt_def
        sample_StringToNumber_def)
  then show ?thesis using p by simp
qed

section \<open>Authorization header\<close>


lemma getAuthHeader_invalid:
  "\<not> falsy_str (activeToken st) \<Longrightarrow> \<not> isTokenValid rt now st \<Longrightarrow>
   getAuthHeader rt now st = ([], clearSession st)"
  by (simp add: getAuthHeader_def Let_def)

lemma getAuthHeader_valid:
  "isTokenValid rt now st \<Longrightarrow>
   getAuthHeader rt now st = ([(''Authorization'', ''Bearer '' @ the (activeToken st))], st)"
  using isTokenValid_no_token [of st rt now] by (auto simp: getAuthHeader_def Let_def)

lemma getAuthHeader_absent:
  "falsy_str (activeToken st) \<Longrightarrow> getAuthHeader rt now st = ([], st)"
  by (simp add: getAuthHeader_def Let_def)

lemma clearSession_apply:
  "clearSession st k =
     (if k \<in> {''id_transporte_token'', ''id_transporte_user'', ''id_transporte_company'',
               ''temp_token'', ''temp_user''} then None else st k)"
  by (simp add: clearSession_def removeItem_def)

lemma sample_not_falsy: "\<not> falsy_str (activeToken (storageWithToken sample_token))"
  unfolding sample_active by (simp add: falsy_str_def sample_token_def)

text \<open>
  Claim C3. An expired final token is in storage. \<^verbatim>\<open>getAuthHeader\<close> computes an empty
  header and clears the five session keys. \<^verbatim>\<open>uploadCompanyLogo\<close> computes its
  \<^verbatim>\<open>Authorization\<close> header itself: it sends the expired token as a bearer credential
  and leaves the storage as it was, whatever the network answers.
\<close>

theorem uploadCompanyLogo_sends_expired_token:
  "\<not> isTokenValid sample_runtime 2000000000000 (storageWithToken sample_token) \<and>
   getAuthHeader sample_runtime 2000000000000 (storageWithToken sample_token) =
     ([], clearSession (storageWithToken sample_token)) \<and>
   snd (uploadCompanyLogo sample_runtime (fixedEnv ''http://localhost:3003'' out)
          (storageWithToken sample_token) ''7'' logo) =
     (storageWithToken sample_token,
      [(''http://localhost:3003/api/companies/7/logo'',
        \<lparr> init_method = Some ''POST'',
          init_headers = [(''Authorization'', ''Bearer '' @ sample_token)],
          init_body = FormDataBody [(''logo'', logo)] \<rparr>)])"
proof -
  have a: "\<not> isTokenValid sample_runtime 2000000000000 (storageWithToken sample_token)"
    by (simp add: sample_valid)
  have b: "getAuthHeader sample_runtime 2000000000000 (storageWithToken sample_token) =
     ([], clearSession (storageWithToken sample_token))"
    using sample_not_falsy a by (rule getAuthHeader_invalid)
  have t: "storageWithToken sample_token ''id_transporte_token'' = Some sample_token"
    by (simp add: storageWithToken_def)
  have ne: "\<not> falsy_str (Some sample_token)"
    by (simp add: falsy_str_def sample_token_def)
  have c: "snd (uploadCompanyLogo sample_runtime (fixedEnv ''http://localhost:3003'' out)
          (storageWithToken sample_token) ''7'' logo) =
     (storageWithToken sample_token,
      [(''http://localhost:3003/api/companies/7/logo'',
        \<lparr> init_method = Some ''POST'',
          init_headers = [(''Authorization'', ''Bearer '' @ sample_token)],
          init_body = FormDataBody [(''logo'', logo)] \<rparr>)])"
    by (cases out)
       (simp_all add: uploadCompanyLogo_def uploadCompanyLogo_try_def fixedEnv_def t ne Let_def
          split: sum.splits)
  show ?thesis using a b c by simp
qed

section \<open>Headers on the wire\<close>


lemma request_calls:
  "getBaseUrl ev endpoint = Inr base \<Longrightarrow>
   snd (snd (request rt ev now st endpoint options)) =
     [(base @ endpoint, fetchInit (mergedHeaders (fst (getAuthHeader rt now st)) options) options)]"
  by (simp add: request_def request_try_def Let_def split: prod.splits fetch_outcome.splits sum.splits)

lemma wire_headers_without_caller_headers:
  "opt_headers options = None \<Longrightarrow>
   init_headers (fetchInit (mergedHeaders auth options) options) =
     (if isFormData (opt_body options)
      then AList.delete ''Content-Type'' (spread [(''Content-Type'', ''application/json'')] auth)
      else spread [(''Content-Type'', ''application/json'')] auth)"
  by (simp add: fetchInit_def mergedHeaders_def spread_def)

lemma sample_auth:
  "getAuthHeader sample_runtime 1999999999999 (storageWithToken sample_token) =
     ([(''Authorization'', ''Bearer '' @ sample_token)], storageWithToken sample_token)"
proof -
  have "isTokenValid sample_runtime 1999999999999 (storageWithToken sample_token)"
    by (simp add: sample_valid)
  from getAuthHeader_valid [OF this] show ?thesis by (simp add: sample_active)
qed

text \<open>
  Claim C1. A caller supplies one header, \<^verbatim>\<open>X-Request-Id\<close>, and a valid token is in
  storage. The \<^verbatim>\<open>headers\<close> constant that \<^verbatim>\<open>request\<close> computes is the merge of the
  default \<^verbatim>\<open>Content-Type\<close>, the \<^verbatim>\<open>Authorization\<close> header and the caller's header.
  The object passed to \<^verbatim>\<open>fetch\<close> is \<^verbatim>\<open>{ headers, ...options }\<close>, so its
  \<^verbatim>\<open>headers\<close> are the caller's alone: neither the default nor the authorization
  header is sent.
\<close>

theorem request_caller_headers_replace_merged:
  "mergedHeaders (fst (getAuthHeader sample_runtime 1999999999999 (storageWithToken sample_token)))
     \<lparr> opt_method = Some ''GET'', opt_headers = Some [(''X-Request-Id'', ''42'')], opt_body = NoBody \<rparr> =
     [(''Content-Type'', ''application/json''), (''Authorization'', ''Bearer '' @ sample_token),
      (''X-Request-Id'', ''42'')] \<and>
   snd (snd (request sample_runtime (fixedEnv ''http://localhost:3002'' out) 1999999999999
               (storageWithToken sample_token) ''/api/drivers''
               \<lparr> opt_method = Some ''GET'', opt_headers = Some [(''X-Request-Id'', ''42'')],
                 opt_body = NoBody \<rparr>)) =
     [(''http://localhost:3002/api/drivers'',
       \<lparr> init_method = Some ''GET'', init_headers = [(''X-Request-Id'', ''42'')],
         init_body = NoBody \<rparr>)]"
proof -
  have g: "getBaseUrl (fixedEnv ''http://localhost:3002'' out) ''/api/drivers'' = Inr ''http://localhost:3002''"
    by (simp add: fixedEnv_def)
  show ?thesis
    unfolding request_calls [OF g] sample_auth
    by (simp add: mergedHeaders_def spread_def fetchInit_def)
qed

section \<open>The failure envelope\<close>


lemma request_result:
  assumes "getBaseUrl ev endpoint = Inr base"
    and "fetch ev (base @ endpoint)
           (fetchInit (mergedHeaders (fst (getAuthHeader rt now st)) options) options) = out"
  shows "fst (request rt ev now st endpoint options) =
     (case out of
        Rejects e \<Rightarrow> Inr (failureEnvelope (classifyError e))
      | Resolves r \<Rightarrow>
          (case handleResponse rt r of
             Inl e \<Rightarrow> Inr (failureEnvelope (classifyError e))
           | Inr v \<Rightarrow> Inr v))"
proof -
  obtain auth st' where g: "getAuthHeader rt now st = (auth, st')"
    by (cases "getAuthHeader rt now st")
  show ?thesis
    using assms unfolding request_def request_try_def Let_def g
    by (cases out) (simp_all split: sum.splits)
qed























section \<open>The success envelope\<close>

lemma hasSuccessKey_iff:
  "hasSuccessKey body \<longleftrightarrow> (\<exists>kvs. body = JObj kvs \<and> ''success'' \<in> fst ` set kvs)"
  by (cases body) (auto simp: map_of_eq_None_iff)

text \<open>
  Claim C6. For a 2xx response whose body parses, \<^verbatim>\<open>request\<close> returns the body itself
  when it is an object with a \<^verbatim>\<open>success\<close> key, and \<^verbatim>\<open>{success: true, data: body}\<close>
  otherwise.
\<close>

theorem request_envelope_normalization:
  fixes rt ev now st endpoint options
  defines "wire \<equiv> fetchInit (mergedHeaders (fst (getAuthHeader rt now st)) options) options"
  assumes "getBaseUrl ev endpoint = Inr base"
    and "fetch ev (base @ endpoint) wire = Resolves r"
    and "200 \<le> status r" and "status r \<le> 299"
    and "json_result r = Inr body"
  shows "fst (request rt ev now st endpoint options) =
     Inr (if \<exists>kvs. body = JObj kvs \<and> ''success'' \<in> fst ` set kvs then body
          else JObj [(''success'', JBool True), (''data'', body)])"
proof -
  have "ok r" using assms(4,5) by (simp add: ok_def)
  then have "handleResponse rt r = Inr (if hasSuccessKey body then body else successEnvelope body)"
    using assms(6) by (simp add: handleResponse_def)
  then show ?thesis
    using request_result [OF assms(2), of rt now st options "Resolves r"] assms(3)
    unfolding wire_def hasSuccessKey_iff successEnvelope_def by simp
qed

text \<open>A 200 whose body is an array, and a 201 whose body already is an envelope.\<close>

theorem request_envelope_normalization_witness:
  "fst (request sample_runtime
         (fixedEnv ''http://localhost:3005''
            (Resolves \<lparr> status = 200, statusText = ''OK'',
                        json_result = Inr (JArr [JObj [(''driver_id'', JStr ''7'')]]),
                        blob_result = Inl NonError \<rparr>))
         0 Map.empty ''/api/tracking/drivers/current-locations''
         \<lparr> opt_method = None, opt_headers = None, opt_body = NoBody \<rparr>) =
     Inr (JObj [(''success'', JBool True), (''data'', JArr [JObj [(''driver_id'', JStr ''7'')]])]) \<and>
   fst (request sample_runtime
         (fixedEnv ''http://localhost:3005''
            (Resolves \<lparr> status = 201, statusText = ''Created'',
                        json_result = Inr (JObj [(''success'', JBool False), (''error'', JStr ''x'')]),
                        blob_result = Inl NonError \<rparr>))
         0 Map.empty ''/api/tracking/drivers/current-locations''
         \<lparr> opt_method = None, opt_headers = None, opt_body = NoBody \<rparr>) =
     Inr (JObj [(''success'', JBool False), (''error'', JStr ''x'')])"
proof -
  let ?opts = "\<lparr> opt_method = None, opt_headers = None, opt_body = NoBody \<rparr>"
  let ?r1 = "\<lparr> status = 200, statusText = ''OK'',
                json_result = Inr (JArr [JObj [(''driver_id'', JStr ''7'')]]),
                blob_result = Inl NonError \<rparr>"
  let ?r2 = "\<lparr> status = 201, statusText = ''Created'',
                json_result = Inr (JObj [(''success'', JBool False), (''error'', JStr ''x'')]),
                blob_result = Inl NonError \<rparr>"
  have a: "fst (request sample_runtime (fixedEnv ''http://localhost:3005'' (Resolves ?r1))
         0 Map.empty ''/api/tracking/drivers/current-locations'' ?opts) =
     Inr (JObj [(''success'', JBool True), (''data'', JArr [JObj [(''driver_id'', JStr ''7'')]])])"
    using request_envelope_normalization [of "fixedEnv ''http://localhost:3005'' (Resolves ?r1)"
        "''/api/tracking/drivers/current-locations''" "''http://localhost:3005''" sample_runtime
        0 Map.empty ?opts ?r1 "JArr [JObj [(''driver_id'', JStr ''7'')]]"]
    by (simp add: fixedEnv_def)
  have b: "fst (request sample_runtime (fixedEnv ''http://localhost:3005'' (Resolves ?r2))
         0 Map.empty ''/api/tracking/drivers/current-locations'' ?opts) =
     Inr (JObj [(''success'', JBool False), (''error'', JStr ''x'')])"
    using request_envelope_normalization [of "fixedEnv ''http://localhost:3005'' (Resolves ?r2)"
        "''/api/tracking/drivers/current-locations''" "''http://localhost:3005''" sample_runtime
        0 Map.empty ?opts ?r2 "JObj [(''success'', JBool False), (''error'', JStr ''x'')]"]
    by (simp add: fixedEnv_def)
  show ?thesis using a b by simp
qed

section \<open>Unwrapping the login response\<close>


lemma login_result:
  "fst (request rt ev now st ''/api/auth/login''
          \<lparr> opt_method = Some ''POST'', opt_headers = None,
            opt_body = TextBody (JSON_stringify rt credentials) \<rparr>) = Inr response \<Longrightarrow>
   fst (login rt ev now st credentials) = Inr (unwrapNested response)"
  by (auto simp: login_def split: prod.splits sum.splits)

lemma unwrapNested_nested:
  "truthy_opt (map_of kvs ''success'') \<Longrightarrow> map_of kvs ''data'' = Some d \<Longrightarrow> truthy d \<Longrightarrow>
   get_prop d ''data'' = Some x \<Longrightarrow> truthy x \<Longrightarrow>
   unwrapNested (JObj kvs) = JObj (AList.update ''data'' x kvs)"
  by (simp add: unwrapNested_def truthy_opt_def)

lemma unwrapNested_other:
  "\<not> (truthy_opt (map_of kvs ''success'') \<and> truthy_opt (map_of kvs ''data'') \<and>
      truthy_opt (get_prop (the (map_of kvs ''data'')) ''data'')) \<Longrightarrow>
   unwrapNested (JObj kvs) = JObj kvs"
  by (auto simp: unwrapNested_def)

text \<open>
  Claim C5, as the code has it. \<^verbatim>\<open>login\<close> removes one level of nesting from the
  envelope that \<^verbatim>\<open>request\<close> returns: an envelope whose \<^verbatim>\<open>success\<close> is truthy and
  whose \<^verbatim>\<open>data\<close> is an object with a truthy \<^verbatim>\<open>data\<close> comes back with that inner
  value as its \<^verbatim>\<open>data\<close>, and every other envelope comes back unchanged. Hence a raw
  2xx body \<^verbatim>\<open>{data: payload}\<close> gives \<^verbatim>\<open>{success: true, data: payload}\<close>, and a raw
  2xx body \<^verbatim>\<open>{data: {data: payload}}\<close> gives \<^verbatim>\<open>{success: true, data: {data: payload}}\<close>.
\<close>

theorem login_unwraps_envelope:
  fixes rt ev now st credentials
  defines "options \<equiv> \<lparr> opt_method = Some ''POST'', opt_headers = None,
                         opt_body = TextBody (JSON_stringify rt credentials) \<rparr>"
  defines "wire \<equiv> fetchInit (mergedHeaders (fst (getAuthHeader rt now st)) options) options"
  shows
  "(\<forall>kvs d x. fst (request rt ev now st ''/api/auth/login'' options) = Inr (JObj kvs) \<and>
        truthy_opt (map_of kvs ''success'') \<and> map_of kvs ''data'' = Some d \<and> truthy d \<and>
        get_prop d ''data'' = Some x \<and> truthy x \<longrightarrow>
      fst (login rt ev now st credentials) = Inr (JObj (AList.update ''data'' x kvs))) \<and>
   (\<forall>kvs. fst (request rt ev now st ''/api/auth/login'' options) = Inr (JObj kvs) \<and>
        \<not> (truthy_opt (map_of kvs ''success'') \<and> truthy_opt (map_of kvs ''data'') \<and>
           truthy_opt (get_prop (the (map_of kvs ''data'')) ''data'')) \<longrightarrow>
      fst (login rt ev now st credentials) = Inr (JObj kvs)) \<and>
   (\<forall>base r payload. getBaseUrl ev ''/api/auth/login'' = Inr base \<and>
        fetch ev (base @ ''/api/auth/login'') wire = Resolves r \<and>
        200 \<le> status r \<and> status r \<le> 299 \<and>
        json_result r = Inr (JObj [(''data'', payload)]) \<and> truthy payload \<longrightarrow>
      fst (login rt ev now st credentials) =
        Inr (JObj [(''success'', JBool True), (''data'', payload)])) \<and>
   (\<forall>base r payload. getBaseUrl ev ''/api/auth/login'' = Inr base \<and>
        fetch ev (base @ ''/api/auth/login'') wire = Resolves r \<and>
        200 \<le> status r \<and> status r \<le> 299 \<and>
        json_result r = Inr (JObj [(''data'', JObj [(''data'', payload)])]) \<longrightarrow>
      fst (login rt ev now st credentials) =
        Inr (JObj [(''success'', JBool True), (''data'', JObj [(''data'', payload)])]))"
proof (intro conjI allI impI)
  fix kvs d x
  assume h: "fst (request rt ev now st ''/api/auth/login'' options) = Inr (JObj kvs) \<and>
        truthy_opt (map_of kvs ''success'') \<and> map_of kvs ''data'' = Some d \<and> truthy d \<and>
        get_prop d ''data'' = Some x \<and> truthy x"
  then have "fst (login rt ev now st credentials) = Inr (unwrapNested (JObj kvs))"
    using login_result [of rt ev now st credentials "JObj kvs"] by (simp add: options_def)
  then show "fst (login rt ev now st credentials) = Inr (JObj (AList.update ''data'' x kvs))"
    using h unwrapNested_nested [of kvs d x] by simp
next
  fix kvs
  assume h: "fst (request rt ev now st ''/api/auth/login'' options) = Inr (JObj kvs) \<and>
        \<not> (truthy_opt (map_of kvs ''success'') \<and> truthy_opt (map_of kvs ''data'') \<and>
           truthy_opt (get_prop (the (map_of kvs ''data'')) ''data''))"
  then have "fst (login rt ev now st credentials) = Inr (unwrapNested (JObj kvs))"
    using login_result [of rt ev now st credentials "JObj kvs"] by (simp add: options_def)
  then show "fst (login rt ev now st credentials) = Inr (JObj kvs)"
    using h unwrapNested_other [of kvs] by simp
next
  fix base r payload
  assume h: "getBaseUrl ev ''/api/auth/login'' = Inr base \<and>
        fetch ev (base @ ''/api/auth/login'') wire = Resolves r \<and>
        200 \<le> status r \<and> status r \<le> 299 \<and>
        json_result r = Inr (JObj [(''data'', payload)]) \<and> truthy payload"
  then have "handleResponse rt r = Inr (successEnvelope (JObj [(''data'', payload)]))"
    by (simp add: handleResponse_def ok_def)
  then have "fst (request rt ev now st ''/api/auth/login'' options) =
      Inr (successEnvelope (JObj [(''data'', payload)]))"
    using h request_result [of ev "''/api/auth/login''" base rt now st options "Resolves r"]
    by (simp add: wire_def)
  then have "fst (login rt ev now st credentials) =
      Inr (unwrapNested (successEnvelope (JObj [(''data'', payload)])))"
    using login_result [of rt ev now st credentials] by (simp add: options_def)
  then show "fst (login rt ev now st credentials) =
        Inr (JObj [(''success'', JBool True), (''data'', payload)])"
    using h by (simp add: unwrapNested_def successEnvelope_def truthy_opt_def)
next
  fix base r payload
  assume h: "getBaseUrl ev ''/api/auth/login'' = Inr base \<and>
        fetch ev (base @ ''/api/auth/login'') wire = Resolves r \<and>
        200 \<le> status r \<and> status r \<le> 299 \<and>
        json_result r = Inr (JObj [(''data'', JObj [(''data'', payload)])])"
  then have "handleResponse rt r = Inr (successEnvelope (JObj [(''data'', JObj [(''data'', payload)])]))"
    by (simp add: handleResponse_def ok_def)
  then have "fst (request rt ev now st ''/api/auth/login'' options) =
      Inr (successEnvelope (JObj [(''data'', JObj [(''data'', payload)])]))"
    using h request_result [of ev "''/api/auth/login''" base rt now st options "Resolves r"]
    by (simp add: wire_def)
  then have "fst (login rt ev now st credentials) =
      Inr (unwrapNested (successEnvelope (JObj [(''data'', JObj [(''data'', payload)])])))"
    using login_result [of rt ev now st credentials] by (simp add: options_def)
  then show "fst (login rt ev now st credentials) =
        Inr (JObj [(''success'', JBool True), (''data'', JObj [(''data'', payload)])])"
    by (simp add: unwrapNested_def successEnvelope_def truthy_opt_def)
qed

text \<open>The raw body \<^verbatim>\<open>{data: {token, user}}\<close>.\<close>

theorem login_unwraps_envelope_witness:
  "fst (login sample_runtime (loginEnv (JObj [(''data'', sample_login_payload)])) 0 Map.empty
         sample_credentials) =
     Inr (JObj [(''success'', JBool True), (''data'', sample_login_payload)])"
  using login_unwraps_envelope [of sample_runtime "loginEnv (JObj [(''data'', sample_login_payload)])"
      0 Map.empty sample_credentials]
  by (simp add: loginEnv_def fixedEnv_def sample_login_payload_def)

text \<open>
  Claim C5 as stated fails at the raw body \<^verbatim>\<open>{data: {data: {token, user}}}\<close>: the
  result keeps one \<^verbatim>\<open>data\<close> wrapper around the token and the user.
\<close>

theorem login_double_nested_counterexample:
  "fst (login sample_runtime (loginEnv (JObj [(''data'', JObj [(''data'', sample_login_payload)])]))
         0 Map.empty sample_credentials) =
     Inr (JObj [(''success'', JBool True), (''data'', JObj [(''data'', sample_login_payload)])]) \<and>
   fst (login sample_runtime (loginEnv (JObj [(''data'', JObj [(''data'', sample_login_payload)])]))
         0 Map.empty sample_credentials) \<noteq>
     Inr (JObj [(''success'', JBool True), (''data'', sample_login_payload)])"
proof -
  have g: "getBaseUrl (loginEnv b) ''/api/auth/login'' = Inr ''http://localhost:3000''" for b
    by (simp add: loginEnv_def fixedEnv_def)
  have "fst (login sample_runtime (loginEnv (JObj [(''data'', JObj [(''data'', sample_login_payload)])]))
         0 Map.empty sample_credentials) =
     Inr (JObj [(''success'', JBool True), (''data'', JObj [(''data'', sample_login_payload)])])"
    apply (rule login_result [THEN trans])
     apply (rule request_result [OF g, THEN trans])
      apply (rule refl)
     apply (simp add: loginEnv_def fixedEnv_def handleResponse_def ok_def)
    apply (simp add: unwrapNested_def successEnvelope_def truthy_opt_def)
    done
  then show ?thesis by (simp add: sample_login_payload_def)
qed

section \<open>Fetching a protected file\<close>


lemma getAuthHeader_empty_iff:
  "fst (getAuthHeader rt now st) = [] \<longleftrightarrow> \<not> isTokenValid rt now st"
  using isTokenValid_no_token [of st rt now]
  by (auto simp: getAuthHeader_def Let_def)

lemma getSecureFile_rethrows:
  "fst (getSecureFile_try rt ev now st url) = Inl e \<Longrightarrow>
   fst (fst (getSecureFile rt ev now st url)) = Inl e \<and> snd (getSecureFile rt ev now st url) = [e]"
  by (auto simp: getSecureFile_def split: prod.splits sum.splits)

lemma getSecureFile_try_unauthenticated:
  "\<not> isTokenValid rt now st \<Longrightarrow>
   getSecureFile_try rt ev now st url =
     (Inl (ErrorObj NOT_AUTHENTICATED_MESSAGE), snd (getAuthHeader rt now st), [])"
  using getAuthHeader_empty_iff [of rt now st]
  by (cases "getAuthHeader rt now st") (simp add: getSecureFile_try_def)

lemma getSecureFile_try_authenticated:
  assumes "isTokenValid rt now st"
    and "fetch ev url \<lparr> init_method = Some ''GET'',
                         init_headers = [(''Authorization'', ''Bearer '' @ the (activeToken st))],
                         init_body = NoBody \<rparr> = out"
  shows "fst (getSecureFile_try rt ev now st url) =
     (case out of
        Rejects e \<Rightarrow> Inl e
      | Resolves r \<Rightarrow>
          if \<not> ok r
          then Inl (errorOr rt (errorDataOf r) (''Falha ao buscar o arquivo: '' @ statusText r))
          else (case blob_result r of Inl e \<Rightarrow> Inl e | Inr blob \<Rightarrow> Inr (createObjectURL rt blob)))"
  using assms(2) unfolding getSecureFile_try_def getAuthHeader_valid [OF assms(1)]
  by (cases out) (simp_all split: sum.splits)

text \<open>
  Claim C8. \<^verbatim>\<open>getSecureFile\<close> throws where \<^verbatim>\<open>request\<close> returns a failed envelope.
  With no valid token it throws before any call of \<^verbatim>\<open>fetch\<close>. Whatever its
  \<^verbatim>\<open>try\<close> block throws, it throws again: what \<^verbatim>\<open>fetch\<close> rejects with, the error
  built from a non-2xx response, and what reading the body throws.
\<close>

theorem getSecureFile_propagates:
  fixes rt ev now st url
  defines "wire \<equiv> \<lparr> init_method = Some ''GET'',
                      init_headers = [(''Authorization'', ''Bearer '' @ the (activeToken st))],
                      init_body = NoBody \<rparr>"
  shows
  "(\<not> isTokenValid rt now st \<longrightarrow>
      fst (fst (getSecureFile rt ev now st url)) = Inl (ErrorObj NOT_AUTHENTICATED_MESSAGE) \<and>
      snd (snd (fst (getSecureFile rt ev now st url))) = []) \<and>
   (\<forall>e. fst (getSecureFile_try rt ev now st url) = Inl e \<longrightarrow>
      fst (fst (getSecureFile rt ev now st url)) = Inl e) \<and>
   (\<forall>e. isTokenValid rt now st \<and> fetch ev url wire = Rejects e \<longrightarrow>
      fst (fst (getSecureFile rt ev now st url)) = Inl e) \<and>
   (\<forall>r. isTokenValid rt now st \<and> fetch ev url wire = Resolves r \<and> \<not> ok r \<longrightarrow>
      fst (fst (getSecureFile rt ev now st url)) =
        Inl (errorOr rt (errorDataOf r) (''Falha ao buscar o arquivo: '' @ statusText r))) \<and>
   (\<forall>r e. isTokenValid rt now st \<and> fetch ev url wire = Resolves r \<and> ok r \<and>
        blob_result r = Inl e \<longrightarrow>
      fst (fst (getSecureFile rt ev now st url)) = Inl e)"
proof (intro conjI allI impI)
  assume h: "\<not> isTokenValid rt now st"
  have t: "getSecureFile_try rt ev now st url =
     (Inl (ErrorObj NOT_AUTHENTICATED_MESSAGE), snd (getAuthHeader rt now st), [])"
    using h by (rule getSecureFile_try_unauthenticated)
  show "fst (fst (getSecureFile rt ev now st url)) = Inl (ErrorObj NOT_AUTHENTICATED_MESSAGE)"
    by (simp add: getSecureFile_def t)
  show "snd (snd (fst (getSecureFile rt ev now st url))) = []"
    by (simp add: getSecureFile_def t)
next
  fix e
  assume "fst (getSecureFile_try rt ev now st url) = Inl e"
  then show "fst (fst (getSecureFile rt ev now st url)) = Inl e"
    using getSecureFile_rethrows by blast
next
  fix e
  assume h: "isTokenValid rt now st \<and> fetch ev url wire = Rejects e"
  then have "fst (getSecureFile_try rt ev now st url) = Inl e"
    using getSecureFile_try_authenticated [of rt now st ev url "Rejects e"]
    by (simp add: wire_def)
  then show "fst (fst (getSecureFile rt ev now st url)) = Inl e"
    using getSecureFile_rethrows by blast
next
  fix r
  assume h: "isTokenValid rt now st \<and> fetch ev url wire = Resolves r \<and> \<not> ok r"
  then have "fst (getSecureFile_try rt ev now st url) =
      Inl (errorOr rt (errorDataOf r) (''Falha ao buscar o arquivo: '' @ statusText r))"
    using getSecureFile_try_authenticated [of rt now st ev url "Resolves r"]
    by (simp add: wire_def)
  then show "fst (fst (getSecureFile rt ev now st url)) =
      Inl (errorOr rt (errorDataOf r) (''Falha ao buscar o arquivo: '' @ statusText r))"
    using getSecureFile_rethrows by blast
next
  fix r e
  assume h: "isTokenValid rt now st \<and> fetch ev url wire = Resolves r \<and> ok r \<and>
        blob_result r = Inl e"
  then have "fst (getSecureFile_try rt ev now st url) = Inl e"
    using getSecureFile_try_authenticated [of rt now st ev url "Resolves r"]
    by (simp add: wire_def)
  then show "fst (fst (getSecureFile rt ev now st url)) = Inl e"
    using getSecureFile_rethrows by blast
qed

text \<open>
  An expired token; a valid token with a network failure; a valid token with a 404 whose
  body is not JSON.
\<close>

theorem getSecureFile_propagates_witness:
  "fst (fst (getSecureFile sample_runtime (fixedEnv [] (Rejects (ErrorObj ''Failed to fetch'')))
               2000000000000 (storageWithToken sample_token) ''https://files.example/canhoto.jpg'')) =
     Inl (ErrorObj NOT_AUTHENTICATED_MESSAGE) \<and>
   snd (snd (fst (getSecureFile sample_runtime (fixedEnv [] (Rejects (ErrorObj ''Failed to fetch'')))
               2000000000000 (storageWithToken sample_token) ''https://files.example/canhoto.jpg''))) = [] \<and>
   fst (fst (getSecureFile sample_runtime (fixedEnv [] (Rejects (ErrorObj ''Failed to fetch'')))
               1999999999999 (storageWithToken sample_token) ''https://files.example/canhoto.jpg'')) =
     Inl (ErrorObj ''Failed to fetch'') \<and>
   fst (fst (getSecureFile sample_runtime
               (fixedEnv [] (Resolves \<lparr> status = 404, statusText = ''Not Found'',
                                         json_result = Inl (ErrorObj ''Unexpected end of JSON input''),
                                         blob_result = Inr [] \<rparr>))
               1999999999999 (storageWithToken sample_token) ''https://files.example/canhoto.jpg'')) =
     Inl (ErrorObj ''Falha ao buscar o arquivo: Not Found'')"
proof -
  let ?e1 = "fixedEnv [] (Rejects (ErrorObj ''Failed to fetch''))"
  let ?e2 = "fixedEnv [] (Resolves \<lparr> status = 404, statusText = ''Not Found'',
                                         json_result = Inl (ErrorObj ''Unexpected end of JSON input''),
                                         blob_result = Inr [] \<rparr>)"
  let ?st = "storageWithToken sample_token"
  let ?url = "''https://files.example/canhoto.jpg''"
  have a: "fst (fst (getSecureFile sample_runtime ?e1 2000000000000 ?st ?url)) =
             Inl (ErrorObj NOT_AUTHENTICATED_MESSAGE) \<and>
           snd (snd (fst (getSecureFile sample_runtime ?e1 2000000000000 ?st ?url))) = []"
    using getSecureFile_propagates [of sample_runtime 2000000000000 ?st ?e1 ?url]
    by (simp add: sample_valid)
  have b: "fst (fst (getSecureFile sample_runtime ?e1 1999999999999 ?st ?url)) =
             Inl (ErrorObj ''Failed to fetch'')"
    using getSecureFile_propagates [of sample_runtime 1999999999999 ?st ?e1 ?url]
    by (simp add: sample_valid fixedEnv_def)
  have c: "fst (fst (getSecureFile sample_runtime ?e2 1999999999999 ?st ?url)) =
             Inl (ErrorObj ''Falha ao buscar o arquivo: Not Found'')"
    using getSecureFile_propagates [of sample_runtime 1999999999999 ?st ?e2 ?url]
    by (simp add: sample_valid fixedEnv_def ok_def errorOr_def errorDataOf_def errorField_def truthy_opt_def)
  show ?thesis using a b c by simp
qed

section \<open>Polling the driver statuses\<close>

text \<open>
  Claim C7. The call of \<^verbatim>\<open>getCurrentLocations\<close> throws. In a silent call,
  \<^verbatim>\<open>loadDriverStatuses\<close> never sets the loading flag, so the flag and the toasts stay
  as they were in every state of the call, and the error is logged. In a call that is
  not silent, an error toast is shown.
\<close>

theorem loadDriverStatuses_error_surfacing:
  "(\<forall>b. SetDriversLoading b \<notin> set (loadDriverStatuses rt th now True (Inl error))) \<and>
   (\<forall>d' \<in> set (statesThrough d (loadDriverStatuses rt th now True (Inl error))).
      driversLoading d' = driversLoading d \<and> toasts d' = toasts d) \<and>
   \<not> list_ex isToast (loadDriverStatuses rt th now True (Inl error)) \<and>
   ConsoleError error \<in> set (loadDriverStatuses rt th now True (Inl error)) \<and>
   list_ex isToast (loadDriverStatuses rt th now False (Inl error)) \<and>
   toasts (last (statesThrough d (loadDriverStatuses rt th now False (Inl error)))) =
     toasts d @ [(''Falha ao carregar motoristas'',
                  ''Nao foi possivel atualizar o status dos motoristas.'', ''destructive'')]"
  by (simp add: loadDriverStatuses_def)

text \<open>A silent call that throws, from a state whose loading flag is off.\<close>

theorem loadDriverStatuses_error_surfacing_witness:
  "map driversLoading
     (statesThrough \<lparr> driverStatuses = [], driversLoading = False, toasts = [] \<rparr>
        (loadDriverStatuses sample_runtime sample_thresholds 0 True (Inl (ErrorObj ''boom'')))) =
     [False, False] \<and>
   map toasts
     (statesThrough \<lparr> driverStatuses = [], driversLoading = False, toasts = [] \<rparr>
        (loadDriverStatuses sample_runtime sample_thresholds 0 True (Inl (ErrorObj ''boom'')))) =
     [[], []]"
  using loadDriverStatuses_error_surfacing [of sample_runtime sample_thresholds 0 "ErrorObj ''boom''"
      "\<lparr> driverStatuses = [], driversLoading = False, toasts = [] \<rparr>"]
  by (simp add: loadDriverStatuses_def)

section \<open>Negative speeds\<close>











section \<open>The stored driver list\<close>



lemma set_insertSorted: "set (insertSorted cmp x ys) = insert x (set ys)"
  by (induction ys) auto

lemma set_sortBy: "set (sortBy cmp xs) = set xs"
  unfolding sortBy_def by (induction xs) (simp_all add: set_insertSorted)

lemma length_insertSorted: "length (insertSorted cmp x ys) = Suc (length ys)"
  by (induction ys) auto

lemma length_sortBy: "length (sortBy cmp xs) = length xs"
  unfolding sortBy_def by (induction xs) (simp_all add: length_insertSorted)

lemma sorted_insertSorted:
  assumes tot: "\<forall>a\<in>S. \<forall>b\<in>S. cmp a b \<le> 0 \<or> cmp b a \<le> 0"
    and tr: "\<forall>a\<in>S. \<forall>b\<in>S. \<forall>c\<in>S. cmp a b \<le> 0 \<and> cmp b c \<le> 0 \<longrightarrow> cmp a c \<le> 0"
    and x: "x \<in> S"
  shows "set ys \<subseteq> S \<Longrightarrow> sorted_wrt (\<lambda>a b. cmp a b \<le> 0) ys \<Longrightarrow>
         sorted_wrt (\<lambda>a b. cmp a b \<le> 0) (insertSorted cmp x ys)"
proof (induction ys)
  case Nil
  then show ?case by simp
next
  case (Cons y ys)
  have y: "y \<in> S" and ys: "set ys \<subseteq> S" using Cons.prems(1) by simp_all
  have sy: "\<forall>z\<in>set ys. cmp y z \<le> 0" and sys: "sorted_wrt (\<lambda>a b. cmp a b \<le> 0) ys"
    using Cons.prems(2) by simp_all
  show ?case
  proof (cases "cmp x y \<le> 0")
    case True
    have "cmp x z \<le> 0" if z: "z \<in> set ys" for z
    proof -
      have "cmp y z \<le> 0" using sy z by blast
      moreover have "z \<in> S" using ys z by blast
      ultimately show ?thesis using tr x y True by blast
    qed
    then show ?thesis using True sy sys by simp
  next
    case False
    have yx: "cmp y x \<le> 0" using tot x y False by blast
    have ih: "sorted_wrt (\<lambda>a b. cmp a b \<le> 0) (insertSorted cmp x ys)"
      using ys sys by (rule Cons.IH)
    have "\<forall>z\<in>set (insertSorted cmp x ys). cmp y z \<le> 0"
      unfolding set_insertSorted using yx sy by blast
    then show ?thesis using False ih by simp
  qed
qed

lemma sorted_sortBy_aux:
  assumes tot: "\<forall>a\<in>S. \<forall>b\<in>S. cmp a b \<le> 0 \<or> cmp b a \<le> 0"
    and tr: "\<forall>a\<in>S. \<forall>b\<in>S. \<forall>c\<in>S. cmp a b \<le> 0 \<and> cmp b c \<le> 0 \<longrightarrow> cmp a c \<le> 0"
  shows "set xs \<subseteq> S \<Longrightarrow> sorted_wrt (\<lambda>a b. cmp a b \<le> 0) (sortBy cmp xs)"
proof (induction xs)
  case Nil
  then show ?case by (simp add: sortBy_def)
next
  case (Cons x xs)
  have x: "x \<in> S" and xs: "set xs \<subseteq> S" using Cons.prems by simp_all
  have ih: "sorted_wrt (\<lambda>a b. cmp a b \<le> 0) (sortBy cmp xs)" using xs by (rule Cons.IH)
  have sub: "set (sortBy cmp xs) \<subseteq> S" using xs by (simp add: set_sortBy)
  have "sorted_wrt (\<lambda>a b. cmp a b \<le> 0) (insertSorted cmp x (sortBy cmp xs))"
    using tot tr x sub ih by (rule sorted_insertSorted)
  then show ?case by (simp add: sortBy_def)
qed

lemma sorted_sortBy:
  assumes "\<forall>a\<in>set xs. \<forall>b\<in>set xs. cmp a b \<le> 0 \<or> cmp b a \<le> 0"
    and "\<forall>a\<in>set xs. \<forall>b\<in>set xs. \<forall>c\<in>set xs. cmp a b \<le> 0 \<and> cmp b c \<le> 0 \<longrightarrow> cmp a c \<le> 0"
  shows "sorted_wrt (\<lambda>a b. cmp a b \<le> 0) (sortBy cmp xs)"
  using assms subset_refl by (rule sorted_sortBy_aux)


lemma normalizeDriver_Some:
  assumes "normalizeDriver rt th now raw = Some item"
  shows "isFinite (item_speed item)"
    and "\<exists>v. coalesce (get_prop raw ''driver_id'') (get_prop raw ''id'') = Some v \<and> v \<noteq> JNull \<and>
             item_id item = to_string rt v"
    and "nullish (get_prop raw ''speed'') \<longrightarrow> item_speed item = Fin 0"
    and "\<not> isFinite (to_number_opt rt (get_prop raw ''speed'')) \<longrightarrow> item_speed item = Fin 0"
proof -
  let ?driver = "if raw = JNull then JObj [] else raw"
  have p: "get_prop ?driver k = get_prop raw k" for k by simp
  let ?id = "coalesce (get_prop raw ''driver_id'') (get_prop raw ''id'')"
  have nn: "\<not> nullish ?id"
    using assms unfolding normalizeDriver_def Let_def p by (auto split: if_splits)
  have item: "item_speed item =
      (let speedValue = to_number rt (the (coalesce (get_prop raw ''speed'') (Some (JNum (Fin 0)))))
       in if isFinite speedValue then speedValue else Fin 0)"
    and idi: "item_id item = to_string rt (the ?id)"
    using assms nn unfolding normalizeDriver_def Let_def p by auto
  show "isFinite (item_speed item)" unfolding item Let_def by simp
  show "\<exists>v. ?id = Some v \<and> v \<noteq> JNull \<and> item_id item = to_string rt v"
    using nn idi by (cases ?id) (auto simp: nullish_def)
  show "nullish (get_prop raw ''speed'') \<longrightarrow> item_speed item = Fin 0"
    unfolding item Let_def by (simp add: coalesce_def)
  show "\<not> isFinite (to_number_opt rt (get_prop raw ''speed'')) \<longrightarrow> item_speed item = Fin 0"
    unfolding item Let_def
    by (cases "get_prop raw ''speed''") (auto simp: coalesce_def nullish_def to_number_opt_def)
qed


lemma normalizeDriver_None:
  "normalizeDriver rt th now raw = None \<longleftrightarrow>
     nullish (coalesce (get_prop raw ''driver_id'') (get_prop raw ''id''))"
proof -
  have p: "get_prop (if raw = JNull then JObj [] else raw) k = get_prop raw k" for k by simp
  show ?thesis unfolding normalizeDriver_def Let_def p by simp
qed

lemma set_map_filter: "set (List.map_filter f xs) = {y. \<exists>x \<in> set xs. f x = Some y}"
  by (induction xs) (auto simp: List.map_filter_def)

lemma set_normalizeDrivers:
  "set (normalizeDrivers rt th now data) = {item. \<exists>raw \<in> set data. normalizeDriver rt th now raw = Some item}"
  by (simp add: normalizeDrivers_def set_sortBy set_map_filter)

lemma length_normalizeDrivers:
  "length (normalizeDrivers rt th now data) =
     length (filter (\<lambda>raw. \<not> nullish (coalesce (get_prop raw ''driver_id'') (get_prop raw ''id''))) data)"
proof -
  have "length (List.map_filter (normalizeDriver rt th now) data) =
     length (filter (\<lambda>raw. \<not> nullish (coalesce (get_prop raw ''driver_id'') (get_prop raw ''id''))) data)"
    by (induction data) (auto simp: List.map_filter_def normalizeDriver_None)
  then show ?thesis by (simp add: normalizeDrivers_def length_sortBy)
qed

lemma stored_list:
  assumes "SetDriverStatuses xs \<in> set (loadDriverStatuses rt th now silent apiResult)"
  shows "\<exists>response data. apiResult = Inr response \<and> truthy_opt (map_of response ''success'') \<and>
      map_of response ''data'' = Some (JArr data) \<and> xs = normalizeDrivers rt th now data"
proof (cases apiResult)
  case (Inl e)
  then show ?thesis using assms by (auto simp: loadDriverStatuses_def split: if_splits)
next
  case (Inr response)
  show ?thesis
  proof (cases "map_of response ''data''")
    case None
    then show ?thesis using assms Inr by (auto simp: loadDriverStatuses_def split: if_splits)
  next
    case (Some d)
    then show ?thesis using assms Inr
      by (cases d) (auto simp: loadDriverStatuses_def split: if_splits)
  qed
qed



lemma sorted_normalizeDrivers:
  assumes "\<forall>a\<in>item_name ` set (normalizeDrivers rt th now data).
           \<forall>b\<in>item_name ` set (normalizeDrivers rt th now data).
           \<forall>c\<in>item_name ` set (normalizeDrivers rt th now data).
             (localeCompare rt a b \<le> 0 \<or> localeCompare rt b a \<le> 0) \<and>
             (localeCompare rt a b \<le> 0 \<and> localeCompare rt b c \<le> 0 \<longrightarrow> localeCompare rt a c \<le> 0)"
  shows "sorted_wrt (\<lambda>a b. localeCompare rt (item_name a) (item_name b) \<le> 0)
           (normalizeDrivers rt th now data)"
proof -
  let ?xs = "List.map_filter (normalizeDriver rt th now) data"
  have s: "set (normalizeDrivers rt th now data) = set ?xs"
    by (simp add: normalizeDrivers_def set_sortBy)
  have tot: "\<forall>a\<in>set ?xs. \<forall>b\<in>set ?xs. compareNames rt a b \<le> 0 \<or> compareNames rt b a \<le> 0"
    using assms unfolding s compareNames_def by blast
  have tr: "\<forall>a\<in>set ?xs. \<forall>b\<in>set ?xs. \<forall>c\<in>set ?xs.
      compareNames rt a b \<le> 0 \<and> compareNames rt b c \<le> 0 \<longrightarrow> compareNames rt a c \<le> 0"
    using assms unfolding s compareNames_def by blast
  have "sorted_wrt (\<lambda>a b. compareNames rt a b \<le> 0) (sortBy (compareNames rt) ?xs)"
    using tot tr by (rule sorted_sortBy)
  then show ?thesis by (simp add: normalizeDrivers_def compareNames_def)
qed

lemma sample_normalized:
  "normalizeDrivers sample_runtime sample_thresholds 0 sample_locations =
     [\<lparr> item_id = ''1'', item_name = ''Ana'', item_speed = Fin 0, item_lastUpdate = None,
        item_status = Offline \<rparr>,
      \<lparr> item_id = ''2'', item_name = ''Bruno'', item_speed = Fin 12.5, item_lastUpdate = None,
        item_status = Offline \<rparr>]"
  by (simp add: normalizeDrivers_def sample_locations_def List.map_filter_def normalizeDriver_def
      coalesce_def nullish_def sortBy_def compareNames_def computeMovementStatus_def
      sample_runtime_def sample_StringToNumber_def sample_localeCompare_def Let_def)

text \<open>
  Claim C10, as the code has it. The only list that \<^verbatim>\<open>loadDriverStatuses\<close> stores
  is the normalized data of a successful response. Every entry of it has a finite speed
  and comes from a raw entry whose \<^verbatim>\<open>driver_id\<close>, or else \<^verbatim>\<open>id\<close>, is neither
  missing nor \<^verbatim>\<open>null\<close>; its identifier is that value as a string. A missing speed and
  a speed that does not convert to a finite number are stored as 0. The raw entries
  without an identifier are the ones left out. When \<^verbatim>\<open>localeCompare\<close> is a consistent
  comparator on the names of the list, the list is sorted by name.
\<close>

theorem driver_list_invariant:
  "(\<forall>xs. SetDriverStatuses xs \<in> set (loadDriverStatuses rt th now silent apiResult) \<longrightarrow>
      (\<exists>response data. apiResult = Inr response \<and> truthy_opt (map_of response ''success'') \<and>
         map_of response ''data'' = Some (JArr data) \<and> xs = normalizeDrivers rt th now data)) \<and>
   (\<forall>item\<in>set (normalizeDrivers rt th now data).
      isFinite (item_speed item) \<and>
      (\<exists>raw\<in>set data. \<exists>v.
         coalesce (get_prop raw ''driver_id'') (get_prop raw ''id'') = Some v \<and> v \<noteq> JNull \<and>
         item_id item = to_string rt v \<and>
         (nullish (get_prop raw ''speed'') \<longrightarrow> item_speed item = Fin 0) \<and>
         (\<not> isFinite (to_number_opt rt (get_prop raw ''speed'')) \<longrightarrow> item_speed item = Fin 0))) \<and>
   length (normalizeDrivers rt th now data) =
     length (filter (\<lambda>raw. \<not> nullish (coalesce (get_prop raw ''driver_id'') (get_prop raw ''id''))) data) \<and>
   ((\<forall>a\<in>item_name ` set (normalizeDrivers rt th now data).
     \<forall>b\<in>item_name ` set (normalizeDrivers rt th now data).
     \<forall>c\<in>item_name ` set (normalizeDrivers rt th now data).
       (localeCompare rt a b \<le> 0 \<or> localeCompare rt b a \<le> 0) \<and>
       (localeCompare rt a b \<le> 0 \<and> localeCompare rt b c \<le> 0 \<longrightarrow> localeCompare rt a c \<le> 0)) \<longrightarrow>
    sorted_wrt (\<lambda>a b. localeCompare rt (item_name a) (item_name b) \<le> 0)
      (normalizeDrivers rt th now data))"
proof (intro conjI allI impI ballI)
  fix xs
  assume "SetDriverStatuses xs \<in> set (loadDriverStatuses rt th now silent apiResult)"
  then show "\<exists>response data. apiResult = Inr response \<and> truthy_opt (map_of response ''success'') \<and>
         map_of response ''data'' = Some (JArr data) \<and> xs = normalizeDrivers rt th now data"
    by (rule stored_list)
next
  fix item
  assume "item \<in> set (normalizeDrivers rt th now data)"
  then obtain raw where raw: "raw \<in> set data" "normalizeDriver rt th now raw = Some item"
    unfolding set_normalizeDrivers by blast
  show "isFinite (item_speed item)" using raw(2) by (rule normalizeDriver_Some(1))
  show "\<exists>raw\<in>set data. \<exists>v.
         coalesce (get_prop raw ''driver_id'') (get_prop raw ''id'') = Some v \<and> v \<noteq> JNull \<and>
         item_id item = to_string rt v \<and>
         (nullish (get_prop raw ''speed'') \<longrightarrow> item_speed item = Fin 0) \<and>
         (\<not> isFinite (to_number_opt rt (get_prop raw ''speed'')) \<longrightarrow> item_speed item = Fin 0)"
    using raw(1) normalizeDriver_Some(2) [OF raw(2)] normalizeDriver_Some(3) [OF raw(2)]
      normalizeDriver_Some(4) [OF raw(2)] by blast
next
  show "length (normalizeDrivers rt th now data) =
     length (filter (\<lambda>raw. \<not> nullish (coalesce (get_prop raw ''driver_id'') (get_prop raw ''id''))) data)"
    by (rule length_normalizeDrivers)
next
  assume "\<forall>a\<in>item_name ` set (normalizeDrivers rt th now data).
     \<forall>b\<in>item_name ` set (normalizeDrivers rt th now data).
     \<forall>c\<in>item_name ` set (normalizeDrivers rt th now data).
       (localeCompare rt a b \<le> 0 \<or> localeCompare rt b a \<le> 0) \<and>
       (localeCompare rt a b \<le> 0 \<and> localeCompare rt b c \<le> 0 \<longrightarrow> localeCompare rt a c \<le> 0)"
  then show "sorted_wrt (\<lambda>a b. localeCompare rt (item_name a) (item_name b) \<le> 0)
      (normalizeDrivers rt th now data)"
    by (rule sorted_normalizeDrivers)
qed

text \<open>
  Three raw entries: one without an identifier, and the other two out of order, one of
  them with a speed that is not a number.
\<close>

theorem driver_list_invariant_witness:
  "sorted_wrt (\<lambda>a b. localeCompare sample_runtime (item_name a) (item_name b) \<le> 0)
     (normalizeDrivers sample_runtime sample_thresholds 0 sample_locations) \<and>
   length (normalizeDrivers sample_runtime sample_thresholds 0 sample_locations) = 2 \<and>
   map item_speed (normalizeDrivers sample_runtime sample_thresholds 0 sample_locations) =
     [Fin 0, Fin 12.5]"
proof -
  have names: "item_name ` set (normalizeDrivers sample_runtime sample_thresholds 0 sample_locations) =
      {''Ana'', ''Bruno''}"
    by (simp add: sample_normalized)
  have cons: "\<forall>a\<in>{''Ana'', ''Bruno''}. \<forall>b\<in>{''Ana'', ''Bruno''}. \<forall>c\<in>{''Ana'', ''Bruno''}.
       (localeCompare sample_runtime a b \<le> 0 \<or> localeCompare sample_runtime b a \<le> 0) \<and>
       (localeCompare sample_runtime a b \<le> 0 \<and> localeCompare sample_runtime b c \<le> 0 \<longrightarrow>
          localeCompare sample_runtime a c \<le> 0)"
    by (simp add: sample_runtime_def sample_localeCompare_def)
  have "sorted_wrt (\<lambda>a b. localeCompare sample_runtime (item_name a) (item_name b) \<le> 0)
     (normalizeDrivers sample_runtime sample_thresholds 0 sample_locations)"
    using driver_list_invariant [of sample_runtime sample_thresholds 0 True "Inl NonError" sample_locations]
      cons unfolding names by blast
  moreover have "length (normalizeDrivers sample_runtime sample_thresholds 0 sample_locations) = 2"
    by (simp add: sample_normalized)
  moreover have "map item_speed (normalizeDrivers sample_runtime sample_thresholds 0 sample_locations) =
     [Fin 0, Fin 12.5]"
    by (simp add: sample_normalized)
  ultimately show ?thesis by simp
qed

text \<open>
  Claim C10 as stated fails for a raw entry whose \<^verbatim>\<open>driver_id\<close> is the empty string:
  it is stored, with an empty identifier.
\<close>

theorem empty_driver_id_counterexample:
  "loadDriverStatuses sample_runtime sample_thresholds 0 True
     (Inr [(''success'', JBool True), (''data'', JArr [JObj [(''driver_id'', JStr [])]])]) =
     [SetDriverStatuses
        [\<lparr> item_id = [], item_name = ''Motorista'', item_speed = Fin 0, item_lastUpdate = None,
           item_status = Offline \<rparr>]]"
  by (simp add: loadDriverStatuses_def truthy_opt_def normalizeDrivers_def List.map_filter_def
      normalizeDriver_def coalesce_def nullish_def sortBy_def computeMovementStatus_def Let_def)

end
